theory Spec2Isabelle
  imports Main "HOL-Library.Sublist"
begin

section \<open>JavaScript values\<close>

text \<open>
  The store of \<^verbatim>\<open>memory-store.ts\<close> works on untyped JavaScript values: documents,
  attribute values, operands and whole queries. They are modelled by one datatype.
  Numbers are integers plus \<open>NaN\<close>; a date is its time value. A regular expression is an
  object with an identity, a source and flags; its \<open>lastIndex\<close>, which \<open>test\<close> reads and
  writes, is kept in a state beside the values. Expressions are not a type of their own:
  as in the source, an expression is the array \<open>[path, operator, operand]\<close> and an
  expression list is an array of such arrays.

  A plain object is the list of its own properties, in the order of \<open>Object.entries\<close>.
\<close>

datatype jsval =
    JUndefined
  | JNull
  | JBool bool
  | JNum int
  | JNaN
  | JStr string
  | JDate int
  | JRegExp nat string string
  | JArr "jsval list"
  | JObj "(string \<times> jsval) list"

text \<open>
  What the source raises: the \<open>Error\<close> of \<open>evaluateExpression\<close>, given here by the operator
  and the path that its message is made of, and the \<open>TypeError\<close> of the language itself
  (calling what is not a function, iterating what is not iterable, reading a property
  of \<open>undefined\<close>, converting what has no primitive value).
\<close>

datatype error =
    TypeError
  | UnsupportedOperator jsval jsval

type_synonym 'a result = "error + 'a"

definition andThen :: "'a result \<Rightarrow> ('a \<Rightarrow> 'b result) \<Rightarrow> 'b result" where
  "andThen r f = (case r of Inl err \<Rightarrow> Inl err | Inr x \<Rightarrow> f x)"

text \<open>The \<open>lastIndex\<close> of every regular expression, by the identity of the object.\<close>

type_synonym regexps = "nat \<Rightarrow> nat"

subsection \<open>Built-ins the evaluator uses\<close>

text \<open>
  \<open>===\<close>. Primitives are compared by value, \<open>NaN\<close> differs from itself. Two objects
  (arrays, plain objects, dates, regular expressions) are equal only when they are the
  same object; the values compared by the store come one from a stored document and one
  from the query or the identifier descriptor, which share no object, so the comparison
  of two objects is false.
\<close>

fun strictEquals :: "jsval \<Rightarrow> jsval \<Rightarrow> bool" where
  "strictEquals JUndefined JUndefined = True"
| "strictEquals JNull JNull = True"
| "strictEquals (JBool a) (JBool b) = (a = b)"
| "strictEquals (JNum a) (JNum b) = (a = b)"
| "strictEquals (JStr a) (JStr b) = (a = b)"
| "strictEquals _ _ = False"

text \<open>\<open>SameValueZero\<close>, the comparison of \<open>Array.prototype.includes\<close>: as \<open>===\<close>, but
  \<open>NaN\<close> equals itself.\<close>

fun sameValueZero :: "jsval \<Rightarrow> jsval \<Rightarrow> bool" where
  "sameValueZero JNaN JNaN = True"
| "sameValueZero a b = strictEquals a b"

text \<open>\<open>v?.valueOf()\<close>: \<open>undefined\<close> for \<open>undefined\<close> and \<open>null\<close>, the time value of a date,
  the value itself otherwise. An object with an own property \<open>valueOf\<close> holds a value
  there, not a function, and the call raises.\<close>

fun optionalValueOf :: "jsval \<Rightarrow> jsval result" where
  "optionalValueOf JUndefined = Inr JUndefined"
| "optionalValueOf JNull = Inr JUndefined"
| "optionalValueOf (JDate t) = Inr (JNum t)"
| "optionalValueOf (JObj fs) =
     (if ''valueOf'' \<in> fst ` set fs then Inl TypeError else Inr (JObj fs))"
| "optionalValueOf v = Inr v"

text \<open>
  The parts of the host that are not code of this repository are parameters of the
  model: lodash's \<open>get\<close>, the \<open>sort-on\<close> package, and the conversions and the matcher of
  the language. The conversions may raise (an object whose \<open>toString\<close> is not a function
  has no primitive value), so they return a result.
  \<^item> \<open>compareLess x y\<close> is the abstract relational comparison behind \<open>x < y\<close>: \<open>Some True\<close>,
    \<open>Some False\<close>, or \<open>None\<close> when it is undefined (a \<open>NaN\<close> operand).
  \<^item> \<open>toString\<close> is \<open>ToString\<close>.
  \<^item> \<open>regExpExec source flags i s\<close> is the matcher started at the index \<open>i\<close> of \<open>s\<close>: the
    index at which the match that it finds ends, or \<open>None\<close>.
\<close>

type_synonym docref = nat

record host =
  lodashGet :: "jsval \<Rightarrow> jsval \<Rightarrow> jsval result"
  compareLess :: "jsval \<Rightarrow> jsval \<Rightarrow> bool option result"
  toString :: "jsval \<Rightarrow> string result"
  regExpExec :: "string \<Rightarrow> string \<Rightarrow> nat \<Rightarrow> string \<Rightarrow> nat option"
  sortOn :: "docref list \<Rightarrow> string list \<Rightarrow> docref list"

text \<open>The operators \<open>>\<close>, \<open>>=\<close>, \<open><\<close> and \<open><=\<close> of the language, from the comparison.\<close>

definition greaterThan :: "host \<Rightarrow> jsval \<Rightarrow> jsval \<Rightarrow> bool result" where
  "greaterThan H x y = andThen (compareLess H y x) (\<lambda>r. Inr (r = Some True))"

definition greaterThanOrEqual :: "host \<Rightarrow> jsval \<Rightarrow> jsval \<Rightarrow> bool result" where
  "greaterThanOrEqual H x y = andThen (compareLess H x y) (\<lambda>r. Inr (r = Some False))"

definition lessThan :: "host \<Rightarrow> jsval \<Rightarrow> jsval \<Rightarrow> bool result" where
  "lessThan H x y = andThen (compareLess H x y) (\<lambda>r. Inr (r = Some True))"

definition lessThanOrEqual :: "host \<Rightarrow> jsval \<Rightarrow> jsval \<Rightarrow> bool result" where
  "lessThanOrEqual H x y = andThen (compareLess H y x) (\<lambda>r. Inr (r = Some False))"

definition toStr :: "host \<Rightarrow> jsval \<Rightarrow> string result" where
  "toStr H v = (case v of JStr s \<Rightarrow> Inr s | _ \<Rightarrow> toString H v)"

text \<open>\<open>s.includes(x)\<close>, \<open>s.startsWith(x)\<close>, \<open>s.endsWith(x)\<close> on a string \<open>s\<close>: a regular
  expression as argument raises, anything else is converted to a string.\<close>

definition stringIncludes :: "host \<Rightarrow> string \<Rightarrow> jsval \<Rightarrow> bool result" where
  "stringIncludes H s x =
     (case x of
        JRegExp _ _ _ \<Rightarrow> Inl TypeError
      | _ \<Rightarrow> andThen (toStr H x) (\<lambda>t. Inr (sublist t s)))"

definition stringStartsWith :: "host \<Rightarrow> string \<Rightarrow> jsval \<Rightarrow> bool result" where
  "stringStartsWith H s x =
     (case x of
        JRegExp _ _ _ \<Rightarrow> Inl TypeError
      | _ \<Rightarrow> andThen (toStr H x) (\<lambda>t. Inr (prefix t s)))"

definition stringEndsWith :: "host \<Rightarrow> string \<Rightarrow> jsval \<Rightarrow> bool result" where
  "stringEndsWith H s x =
     (case x of
        JRegExp _ _ _ \<Rightarrow> Inl TypeError
      | _ \<Rightarrow> andThen (toStr H x) (\<lambda>t. Inr (suffix t s)))"

text \<open>\<open>operand.includes(attributeValue)\<close>: an array searches with \<open>SameValueZero\<close>, a
  string searches for the converted value, nothing else has the method.\<close>

definition operandIncludes :: "host \<Rightarrow> jsval \<Rightarrow> jsval \<Rightarrow> bool result" where
  "operandIncludes H operand attributeValue =
     (case operand of
        JArr xs \<Rightarrow> Inr (list_ex (\<lambda>el. sameValueZero el attributeValue) xs)
      | JStr s \<Rightarrow> stringIncludes H s attributeValue
      | _ \<Rightarrow> Inl TypeError)"

text \<open>
  \<open>RegExp.prototype.test\<close>. A regular expression with the flag \<open>g\<close> or \<open>y\<close> starts at its
  \<open>lastIndex\<close> and leaves there the end of the match, or 0 when there is none; any other
  starts at 0 and leaves its \<open>lastIndex\<close> alone.
\<close>

definition stateful :: "string \<Rightarrow> bool" where
  "stateful flags \<longleftrightarrow> CHR ''g'' \<in> set flags \<or> CHR ''y'' \<in> set flags"

definition regExpTest ::
  "host \<Rightarrow> regexps \<Rightarrow> nat \<Rightarrow> string \<Rightarrow> string \<Rightarrow> string \<Rightarrow> bool result \<times> regexps" where
  "regExpTest H \<sigma> r source flags s =
     (case regExpExec H source flags (if stateful flags then \<sigma> r else 0) s of
        None \<Rightarrow> (Inr False, if stateful flags then \<sigma>(r := 0) else \<sigma>)
      | Some e \<Rightarrow> (Inr True, if stateful flags then \<sigma>(r := e) else \<sigma>))"

text \<open>\<open>operand.test(attributeValue)\<close>: only a regular expression has the method.\<close>

definition operandTest :: "host \<Rightarrow> regexps \<Rightarrow> jsval \<Rightarrow> string \<Rightarrow> bool result \<times> regexps" where
  "operandTest H \<sigma> operand s =
     (case operand of
        JRegExp r source flags \<Rightarrow> regExpTest H \<sigma> r source flags s
      | _ \<Rightarrow> (Inl TypeError, \<sigma>))"

text \<open>Iteration, as \<open>for ... of\<close> and array destructuring do it: an array yields its
  elements, a string its characters, nothing else is iterable.\<close>

fun iterate :: "jsval \<Rightarrow> jsval list result" where
  "iterate (JArr xs) = Inr xs"
| "iterate (JStr s) = Inr (map (\<lambda>c. JStr [c]) s)"
| "iterate _ = Inl TypeError"

definition element :: "jsval list \<Rightarrow> nat \<Rightarrow> jsval" where
  "element xs i = (if i < length xs then xs ! i else JUndefined)"

text \<open>The pattern \<open>[path, operator, operand]\<close> of the loop header.\<close>

definition destructure :: "jsval \<Rightarrow> (jsval \<times> jsval \<times> jsval) result" where
  "destructure e =
     (case iterate e of
        Inl err \<Rightarrow> Inl err
      | Inr xs \<Rightarrow> Inr (element xs 0, element xs 1, element xs 2))"

text \<open>\<open>path !== '' ? get(document, path) : document\<close>.\<close>

definition attributeValueAt :: "host \<Rightarrow> jsval \<Rightarrow> jsval \<Rightarrow> jsval result" where
  "attributeValueAt H document path =
     (if path \<noteq> JStr [] then lodashGet H document path else Inr document)"

section \<open>The expression evaluator\<close>

text \<open>The weight of a value counts its nesting of arrays; it is what the recursion of
  the evaluator descends on.\<close>

fun weight :: "jsval \<Rightarrow> nat" where
  "weight (JArr xs) = Suc (sum_list (map (\<lambda>x. Suc (weight x)) xs))"
| "weight _ = 0"

definition recursiveOperator :: "jsval \<Rightarrow> bool" where
  "recursiveOperator operator \<longleftrightarrow>
     operator \<in> {JStr ''$some'', JStr ''$every'', JStr ''$not'',
                 JStr ''$and'', JStr ''$or'', JStr ''$nor''}"

text \<open>
  The evaluator is seven functions that call one another; a call is tagged with its
  function (in the order of the definition below) and measured by three numbers,
  compared lexicographically: the weight of the expressions still to be evaluated, a
  rank of the function, and the length of the list that a loop runs through.
\<close>

definition callMeasure ::
  "(host \<times> regexps \<times> jsval \<times> jsval + host \<times> regexps \<times> jsval \<times> jsval list
      + host \<times> regexps \<times> jsval \<times> jsval \<times> jsval \<times> jsval)
   + (host \<times> regexps \<times> jsval list \<times> jsval + host \<times> regexps \<times> jsval list \<times> jsval)
   + host \<times> regexps \<times> jsval \<times> jsval list + host \<times> regexps \<times> jsval \<times> jsval list
   \<Rightarrow> nat \<times> nat \<times> nat" where
  "callMeasure c =
     (case c of
        Inl (Inl (H, \<sigma>, document, expressions)) \<Rightarrow> (weight expressions + 1, 2, 0)
      | Inl (Inr (Inl (H, \<sigma>, document, es))) \<Rightarrow> (sum_list (map weight es) + 1, 1, length es)
      | Inl (Inr (Inr (H, \<sigma>, attributeValue, operator, operand, path))) \<Rightarrow>
          (if recursiveOperator operator then weight operand + 1 else 0, 4, 0)
      | Inr (Inl (Inl (H, \<sigma>, subdocuments, operand))) \<Rightarrow>
          (weight operand + 1, 3, length subdocuments)
      | Inr (Inl (Inr (H, \<sigma>, subdocuments, operand))) \<Rightarrow>
          (weight operand + 1, 3, length subdocuments)
      | Inr (Inr (Inl (H, \<sigma>, attributeValue, xs))) \<Rightarrow>
          (sum_list (map weight xs) + 1, 3, length xs)
      | Inr (Inr (Inr (H, \<sigma>, attributeValue, xs))) \<Rightarrow>
          (sum_list (map weight xs) + 1, 3, length xs))"

definition callOrder where
  "callOrder = inv_image (less_than <*lex*> less_than <*lex*> less_than) callMeasure"

lemma wf_callOrder: "wf callOrder"
  unfolding callOrder_def by (intro wf_inv_image wf_lex_prod wf_less_than)

lemma weight_member: "x \<in> set xs \<Longrightarrow> weight x < sum_list (map (\<lambda>x. Suc (weight x)) xs)"
  by (induction xs) auto

lemma weight_element: "weight (element xs i) < weight (JArr xs)"
proof (cases "i < length xs")
  case True
  then have "weight (xs ! i) < sum_list (map (\<lambda>x. Suc (weight x)) xs)"
    by (intro weight_member) simp
  with True show ?thesis by (simp add: element_def)
next
  case False
  then show ?thesis by (simp add: element_def)
qed

lemma element_characters:
  "element (map (\<lambda>c. JStr [c]) s) i = JUndefined \<or> (\<exists>c. element (map (\<lambda>c. JStr [c]) s) i = JStr [c])"
  by (simp add: element_def)

lemma characters_not_recursive: "\<not> recursiveOperator (element (map (\<lambda>c. JStr [c]) s) i)"
  using element_characters [of s i] by (auto simp: recursiveOperator_def)

lemma weight_destructure:
  "destructure e = Inr (path, operator, operand) \<Longrightarrow>
     (if recursiveOperator operator then weight operand + 1 else 0) < weight e + 1"
proof (cases e)
  case (JArr xs)
  assume "destructure e = Inr (path, operator, operand)"
  with JArr have "operand = element xs 2" by (simp add: destructure_def)
  with JArr show ?thesis using weight_element [of xs 2] by simp
next
  case (JStr s)
  assume "destructure e = Inr (path, operator, operand)"
  with JStr have "operator = element (map (\<lambda>c. JStr [c]) s) 1" by (simp add: destructure_def)
  then show ?thesis using characters_not_recursive [of s 1] by simp
qed (simp_all add: destructure_def)

lemma weight_destructure_recursive:
  "destructure e = Inr (path, operator, operand) \<Longrightarrow> recursiveOperator operator \<Longrightarrow>
     weight operand < weight e"
  using weight_destructure [of e path operator operand] by simp

lemma weight_iterate: "iterate expressions = Inr es \<Longrightarrow> sum_list (map weight es) \<le> weight expressions"
proof (cases expressions)
  case (JArr xs)
  assume "iterate expressions = Inr es"
  with JArr have "es = xs" by simp
  moreover have "sum_list (map weight xs) \<le> sum_list (map (\<lambda>x. Suc (weight x)) xs)"
    by (rule sum_list_mono) simp
  ultimately show ?thesis using JArr by simp
next
  case (JStr s)
  assume "iterate expressions = Inr es"
  with JStr have "es = map (\<lambda>c. JStr [c]) s" by simp
  then show ?thesis by (simp add: comp_def)
qed simp_all

lemma weight_subexpressions:
  "sum_list (map weight xs) < Suc (sum_list (map (\<lambda>x. Suc (weight x)) xs))"
proof -
  have "sum_list (map weight xs) \<le> sum_list (map (\<lambda>x. Suc (weight x)) xs)"
    by (rule sum_list_mono) simp
  then show ?thesis by simp
qed

text \<open>
  \<open>documentIsMatchingExpressions\<close> and \<open>evaluateExpression\<close>, with the loops they run:
  \<^item> \<open>matchEach\<close> is the body of \<open>for (const [path, operator, operand] of expressions)\<close>,
    which returns false at the first expression that evaluates to \<open>false\<close>;
  \<^item> \<open>someSubdocument\<close> and \<open>everySubdocument\<close> are \<open>subdocuments.some(...)\<close> and
    \<open>subdocuments.every(...)\<close> of the operators \<open>$some\<close> and \<open>$every\<close>;
  \<^item> \<open>someSubexpressions\<close> and \<open>everySubexpressions\<close> are the \<open>some\<close> and \<open>every\<close> of the
    operators \<open>$or\<close>, \<open>$nor\<close> and \<open>$and\<close>, which only an array operand has.
  Every function takes the state of the regular expressions and returns it with its
  result, since \<open>$matches\<close> may change it; what was changed before an exception stays
  changed. An exception raised inside a loop ends it. The comparisons of
  \<open>evaluateExpression\<close> are in the order of the source.
\<close>

function
    documentIsMatchingExpressions ::
      "host \<Rightarrow> regexps \<Rightarrow> jsval \<Rightarrow> jsval \<Rightarrow> bool result \<times> regexps"
and matchEach :: "host \<Rightarrow> regexps \<Rightarrow> jsval \<Rightarrow> jsval list \<Rightarrow> bool result \<times> regexps"
and evaluateExpression ::
      "host \<Rightarrow> regexps \<Rightarrow> jsval \<Rightarrow> jsval \<Rightarrow> jsval \<Rightarrow> jsval \<Rightarrow> bool result \<times> regexps"
and someSubdocument :: "host \<Rightarrow> regexps \<Rightarrow> jsval list \<Rightarrow> jsval \<Rightarrow> bool result \<times> regexps"
and everySubdocument :: "host \<Rightarrow> regexps \<Rightarrow> jsval list \<Rightarrow> jsval \<Rightarrow> bool result \<times> regexps"
and someSubexpressions :: "host \<Rightarrow> regexps \<Rightarrow> jsval \<Rightarrow> jsval list \<Rightarrow> bool result \<times> regexps"
and everySubexpressions :: "host \<Rightarrow> regexps \<Rightarrow> jsval \<Rightarrow> jsval list \<Rightarrow> bool result \<times> regexps"
where
  "documentIsMatchingExpressions H \<sigma> document expressions =
     (case iterate expressions of
        Inl err \<Rightarrow> (Inl err, \<sigma>)
      | Inr es \<Rightarrow> matchEach H \<sigma> document es)"
| "matchEach H \<sigma> document [] = (Inr True, \<sigma>)"
| "matchEach H \<sigma> document (e # es) =
     (case destructure e of
        Inl err \<Rightarrow> (Inl err, \<sigma>)
      | Inr (path, operator, operand) \<Rightarrow>
          (case attributeValueAt H document path of
             Inl err \<Rightarrow> (Inl err, \<sigma>)
           | Inr attributeValue \<Rightarrow>
               (case evaluateExpression H \<sigma> attributeValue operator operand path of
                  (Inl err, \<sigma>') \<Rightarrow> (Inl err, \<sigma>')
                | (Inr b, \<sigma>') \<Rightarrow>
                    if b = False then (Inr False, \<sigma>') else matchEach H \<sigma>' document es)))"
| "evaluateExpression H \<sigma> attributeValue operator operand path =
     (if operator = JStr ''$equal'' then
        (case optionalValueOf attributeValue of
           Inl err \<Rightarrow> (Inl err, \<sigma>)
         | Inr l \<Rightarrow> (case optionalValueOf operand of
                      Inl err \<Rightarrow> (Inl err, \<sigma>)
                    | Inr r \<Rightarrow> (Inr (strictEquals l r), \<sigma>)))
      else if operator = JStr ''$notEqual'' then
        (case optionalValueOf attributeValue of
           Inl err \<Rightarrow> (Inl err, \<sigma>)
         | Inr l \<Rightarrow> (case optionalValueOf operand of
                      Inl err \<Rightarrow> (Inl err, \<sigma>)
                    | Inr r \<Rightarrow> (Inr (\<not> strictEquals l r), \<sigma>)))
      else if operator = JStr ''$greaterThan'' then
        (greaterThan H attributeValue operand, \<sigma>)
      else if operator = JStr ''$greaterThanOrEqual'' then
        (greaterThanOrEqual H attributeValue operand, \<sigma>)
      else if operator = JStr ''$lessThan'' then
        (lessThan H attributeValue operand, \<sigma>)
      else if operator = JStr ''$lessThanOrEqual'' then
        (lessThanOrEqual H attributeValue operand, \<sigma>)
      else if operator = JStr ''$any'' then
        (operandIncludes H operand attributeValue, \<sigma>)
      else if operator = JStr ''$includes'' then
        (case attributeValue of
           JStr s \<Rightarrow> (stringIncludes H s operand, \<sigma>)
         | _ \<Rightarrow> (Inr False, \<sigma>))
      else if operator = JStr ''$startsWith'' then
        (case attributeValue of
           JStr s \<Rightarrow> (stringStartsWith H s operand, \<sigma>)
         | _ \<Rightarrow> (Inr False, \<sigma>))
      else if operator = JStr ''$endsWith'' then
        (case attributeValue of
           JStr s \<Rightarrow> (stringEndsWith H s operand, \<sigma>)
         | _ \<Rightarrow> (Inr False, \<sigma>))
      else if operator = JStr ''$matches'' then
        (case attributeValue of
           JStr s \<Rightarrow> operandTest H \<sigma> operand s
         | _ \<Rightarrow> (Inr False, \<sigma>))
      else if operator = JStr ''$some'' then
        (case attributeValue of
           JArr subdocuments \<Rightarrow> someSubdocument H \<sigma> subdocuments operand
         | _ \<Rightarrow> (Inr False, \<sigma>))
      else if operator = JStr ''$every'' then
        (case attributeValue of
           JArr subdocuments \<Rightarrow> everySubdocument H \<sigma> subdocuments operand
         | _ \<Rightarrow> (Inr False, \<sigma>))
      else if operator = JStr ''$length'' then
        (case attributeValue of
           JArr xs \<Rightarrow> (Inr (strictEquals (JNum (int (length xs))) operand), \<sigma>)
         | _ \<Rightarrow> (Inr False, \<sigma>))
      else if operator = JStr ''$not'' then
        (case documentIsMatchingExpressions H \<sigma> attributeValue operand of
           (Inl err, \<sigma>') \<Rightarrow> (Inl err, \<sigma>')
         | (Inr b, \<sigma>') \<Rightarrow> (Inr (\<not> b), \<sigma>'))
      else if operator = JStr ''$and'' then
        (case operand of
           JArr andSubexpressions \<Rightarrow> everySubexpressions H \<sigma> attributeValue andSubexpressions
         | _ \<Rightarrow> (Inl TypeError, \<sigma>))
      else if operator = JStr ''$or'' then
        (case operand of
           JArr orSubexpressions \<Rightarrow> someSubexpressions H \<sigma> attributeValue orSubexpressions
         | _ \<Rightarrow> (Inl TypeError, \<sigma>))
      else if operator = JStr ''$nor'' then
        (case operand of
           JArr norSubexpressions \<Rightarrow>
             (case someSubexpressions H \<sigma> attributeValue norSubexpressions of
                (Inl err, \<sigma>') \<Rightarrow> (Inl err, \<sigma>')
              | (Inr b, \<sigma>') \<Rightarrow> (Inr (\<not> b), \<sigma>'))
         | _ \<Rightarrow> (Inl TypeError, \<sigma>))
      else (Inl (UnsupportedOperator operator path), \<sigma>))"
| "someSubdocument H \<sigma> [] subexpressions = (Inr False, \<sigma>)"
| "someSubdocument H \<sigma> (subdocument # rest) subexpressions =
     (case documentIsMatchingExpressions H \<sigma> subdocument subexpressions of
        (Inl err, \<sigma>') \<Rightarrow> (Inl err, \<sigma>')
      | (Inr b, \<sigma>') \<Rightarrow> if b then (Inr True, \<sigma>') else someSubdocument H \<sigma>' rest subexpressions)"
| "everySubdocument H \<sigma> [] subexpressions = (Inr True, \<sigma>)"
| "everySubdocument H \<sigma> (subdocument # rest) subexpressions =
     (case documentIsMatchingExpressions H \<sigma> subdocument subexpressions of
        (Inl err, \<sigma>') \<Rightarrow> (Inl err, \<sigma>')
      | (Inr b, \<sigma>') \<Rightarrow> if b then everySubdocument H \<sigma>' rest subexpressions else (Inr False, \<sigma>'))"
| "someSubexpressions H \<sigma> attributeValue [] = (Inr False, \<sigma>)"
| "someSubexpressions H \<sigma> attributeValue (subexpressions # rest) =
     (case documentIsMatchingExpressions H \<sigma> attributeValue subexpressions of
        (Inl err, \<sigma>') \<Rightarrow> (Inl err, \<sigma>')
      | (Inr b, \<sigma>') \<Rightarrow> if b then (Inr True, \<sigma>') else someSubexpressions H \<sigma>' attributeValue rest)"
| "everySubexpressions H \<sigma> attributeValue [] = (Inr True, \<sigma>)"
| "everySubexpressions H \<sigma> attributeValue (subexpressions # rest) =
     (case documentIsMatchingExpressions H \<sigma> attributeValue subexpressions of
        (Inl err, \<sigma>') \<Rightarrow> (Inl err, \<sigma>')
      | (Inr b, \<sigma>') \<Rightarrow>
          if b then everySubexpressions H \<sigma>' attributeValue rest else (Inr False, \<sigma>'))"
  by pat_completeness auto

termination
  apply (relation callOrder)
  apply (rule wf_callOrder)
  apply (auto simp: callOrder_def callMeasure_def recursiveOperator_def le_imp_less_or_eq
       weight_subexpressions dest: weight_iterate weight_destructure_recursive)
  done

text \<open>
  The calls of the evaluator: \<open>evaluatorCall x y\<close> holds when the call with the arguments
  \<open>y\<close> makes, in the course of its evaluation, the call with the arguments \<open>x\<close>. The
  relation is the one the definition above gives rise to; its arguments are tagged with
  the function called.
\<close>

abbreviation evaluatorCall where
  "evaluatorCall \<equiv>
     documentIsMatchingExpressions_matchEach_evaluateExpression_someSubdocument_everySubdocument_someSubexpressions_everySubexpressions_rel"

text \<open>The calls of \<open>matchEach\<close> and of \<open>documentIsMatchingExpressions\<close>.\<close>

definition isMatchEach where
  "isMatchEach c = (case c of Inl (Inr (Inl _)) \<Rightarrow> True | _ \<Rightarrow> False)"

definition isMatching where
  "isMatching c = (case c of Inl (Inl _) \<Rightarrow> True | _ \<Rightarrow> False)"

declare documentIsMatchingExpressions.simps [simp del]
declare evaluateExpression.simps [simp del]

section \<open>The result pipeline\<close>

text \<open>
  A document is a plain object. The documents of a collection are objects with an
  identity: the collection holds references, and the heap gives the properties of the
  object behind each reference. No operation modelled here writes to a document, so the
  heap is only read.
\<close>

type_synonym document = "(string \<times> jsval) list"

text \<open>\<open>document[name]\<close>, among the properties of the document itself. (A member that the
  document inherits is a function, which no string or number of an identifier
  descriptor is identical to.)\<close>

definition getProperty :: "document \<Rightarrow> string \<Rightarrow> jsval" where
  "getProperty d k = (case map_of d k of None \<Rightarrow> JUndefined | Some v \<Rightarrow> v)"

text \<open>
  The registry of the store is a plain object, and \<open>this._collections[name]\<close> reads
  through its prototype: a name that the registry does not hold itself, but that
  \<open>Object.prototype\<close> holds, yields that member (a function, or for \<open>__proto__\<close> the
  prototype itself), which is not \<open>undefined\<close> and not an array. So what the store takes
  for a collection is either an array of documents or such a member, given by its name.
  The members are listed with their property \<open>length\<close>; none of them has a method
  \<open>find\<close>, \<open>filter\<close>, \<open>slice\<close> or \<open>push\<close>.
\<close>

datatype collection = Documents "docref list" | Inherited string

definition objectPrototype :: "(string \<times> jsval) list" where
  "objectPrototype =
     [(''constructor'', JNum 1), (''__defineGetter__'', JNum 2), (''__defineSetter__'', JNum 2),
      (''hasOwnProperty'', JNum 1), (''__lookupGetter__'', JNum 1), (''__lookupSetter__'', JNum 1),
      (''isPrototypeOf'', JNum 1), (''propertyIsEnumerable'', JNum 1), (''toString'', JNum 0),
      (''valueOf'', JNum 0), (''__proto__'', JUndefined), (''toLocaleString'', JNum 0)]"

definition inherited :: "string \<Rightarrow> bool" where
  "inherited name \<longleftrightarrow> name \<in> fst ` set objectPrototype"

text \<open>\<open>documents.length\<close>.\<close>

fun lengthProperty :: "collection \<Rightarrow> jsval" where
  "lengthProperty (Documents ds) = JNum (int (length ds))"
| "lengthProperty (Inherited name) = getProperty objectPrototype name"

text \<open>\<open>expressions.length\<close>.\<close>

fun lengthOf :: "jsval \<Rightarrow> jsval result" where
  "lengthOf (JArr xs) = Inr (JNum (int (length xs)))"
| "lengthOf (JStr s) = Inr (JNum (int (length s)))"
| "lengthOf JUndefined = Inl TypeError"
| "lengthOf JNull = Inl TypeError"
| "lengthOf (JObj fs) = Inr (getProperty fs ''length'')"
| "lengthOf _ = Inr JUndefined"

text \<open>\<open>documents.filter((document) => documentIsMatchingExpressions(document, expressions))\<close>
  on an array: the documents are visited in order and the first exception ends the
  visit.\<close>

fun filterMatching ::
  "host \<Rightarrow> (docref \<Rightarrow> document) \<Rightarrow> regexps \<Rightarrow> docref list \<Rightarrow> jsval \<Rightarrow> docref list result \<times> regexps"
where
  "filterMatching H h \<sigma> [] expressions = (Inr [], \<sigma>)"
| "filterMatching H h \<sigma> (d # ds) expressions =
     (case documentIsMatchingExpressions H \<sigma> (JObj (h d)) expressions of
        (Inl err, \<sigma>') \<Rightarrow> (Inl err, \<sigma>')
      | (Inr b, \<sigma>') \<Rightarrow>
          (case filterMatching H h \<sigma>' ds expressions of
             (Inl err, \<sigma>'') \<Rightarrow> (Inl err, \<sigma>'')
           | (Inr rest, \<sigma>'') \<Rightarrow> (Inr (if b then d # rest else rest), \<sigma>'')))"

definition filterDocuments ::
  "host \<Rightarrow> (docref \<Rightarrow> document) \<Rightarrow> regexps \<Rightarrow> collection \<Rightarrow> jsval \<Rightarrow> collection result \<times> regexps"
where
  "filterDocuments H h \<sigma> documents expressions =
     (case lengthOf expressions of
        Inl err \<Rightarrow> (Inl err, \<sigma>)
      | Inr n \<Rightarrow>
          if strictEquals n (JNum 0) then (Inr documents, \<sigma>)
          else (case documents of
                  Documents ds \<Rightarrow>
                    (case filterMatching H h \<sigma> ds expressions of
                       (Inl err, \<sigma>') \<Rightarrow> (Inl err, \<sigma>')
                     | (Inr matching, \<sigma>') \<Rightarrow> (Inr (Documents matching), \<sigma>'))
                | Inherited _ \<Rightarrow> (Inl TypeError, \<sigma>)))"

text \<open>\<open>direction.toLowerCase()\<close>, on the letters A to Z.\<close>

definition toLowerCase :: "string \<Rightarrow> string" where
  "toLowerCase s =
     map (\<lambda>c. case map_of (zip ''ABCDEFGHIJKLMNOPQRSTUVWXYZ'' ''abcdefghijklmnopqrstuvwxyz'') c of
                None \<Rightarrow> c
              | Some l \<Rightarrow> l) s"

text \<open>The sort descriptor is the list of its entries \<open>(name, direction)\<close>, in order;
  \<open>sortProperties\<close> is the array \<open>properties\<close> made of them. \<open>sortOn\<close> refuses what is not
  an array.\<close>

definition sortProperties :: "(string \<times> string) list \<Rightarrow> string list" where
  "sortProperties descriptor =
     map (\<lambda>(name, direction). if toLowerCase direction = ''desc'' then ''-'' @ name else name)
       descriptor"

definition sortDocuments ::
  "host \<Rightarrow> collection \<Rightarrow> (string \<times> string) list option \<Rightarrow> collection result" where
  "sortDocuments H documents sortBy =
     (case sortBy of
        None \<Rightarrow> Inr documents
      | Some descriptor \<Rightarrow>
          (case documents of
             Documents ds \<Rightarrow> Inr (Documents (sortOn H ds (sortProperties descriptor)))
           | Inherited _ \<Rightarrow> Inl TypeError))"

text \<open>
  \<open>Array.prototype.slice(start, end)\<close> on integral arguments: a negative index counts
  from the end, and both indices are clamped to the array.
\<close>

definition relativeIndex :: "int \<Rightarrow> int \<Rightarrow> int" where
  "relativeIndex n i = (if i < 0 then max (n + i) 0 else min i n)"

definition slice :: "'a list \<Rightarrow> int \<Rightarrow> int option \<Rightarrow> 'a list" where
  "slice xs start finish =
     (let n = int (length xs);
          k = relativeIndex n start;
          final = (case finish of None \<Rightarrow> n | Some e \<Rightarrow> relativeIndex n e)
      in take (nat (final - k)) (drop (nat k) xs))"

definition skipDocuments :: "collection \<Rightarrow> int option \<Rightarrow> collection result" where
  "skipDocuments documents skip =
     (case skip of
        None \<Rightarrow> Inr documents
      | Some n \<Rightarrow>
          (case documents of
             Documents ds \<Rightarrow> Inr (Documents (slice ds n None))
           | Inherited _ \<Rightarrow> Inl TypeError))"

definition limitDocuments :: "collection \<Rightarrow> int option \<Rightarrow> collection result" where
  "limitDocuments documents limit =
     (case limit of
        None \<Rightarrow> Inr documents
      | Some m \<Rightarrow>
          (case documents of
             Documents ds \<Rightarrow> Inr (Documents (slice ds 0 (Some m)))
           | Inherited _ \<Rightarrow> Inl TypeError))"

section \<open>The store\<close>

text \<open>
  The state of a \<open>MemoryStore\<close> is its registry \<open>_collections\<close>, here the entries that the
  registry holds itself, from names to collections; a collection is the array of the
  references to its documents, and the state carries the heap in which these objects
  live. Every method is \<open>async\<close>: what it returns is what its promise resolves to, \<open>Inl\<close>
  being a rejection. The methods that evaluate a query also take and return the state of
  the regular expressions of the query. Names that Isabelle does not accept are written
  without the leading underscore: \<open>_getCollection\<close> is \<open>internal_getCollection\<close>, and so
  on.
\<close>

record memoryStore =
  collections :: "string \<rightharpoonup> docref list"
  heap :: "docref \<Rightarrow> document"

definition internal_getCollection :: "memoryStore \<Rightarrow> string \<Rightarrow> collection \<times> memoryStore" where
  "internal_getCollection s name =
     (case collections s name of
        Some collection \<Rightarrow> (Documents collection, s)
      | None \<Rightarrow>
          if inherited name then (Inherited name, s)
          else (Documents [], s\<lparr>collections := (collections s)(name \<mapsto> [])\<rparr>))"

text \<open>The identifier descriptor is the list of its entries; the pattern
  \<open>[[identifierName, identifierValue]]\<close> takes the first and raises when there is none.\<close>

definition internal_readDocument ::
  "(docref \<Rightarrow> document) \<Rightarrow> collection \<Rightarrow> (string \<times> jsval) list \<Rightarrow> docref option result" where
  "internal_readDocument h collection identifierDescriptor =
     (case identifierDescriptor of
        [] \<Rightarrow> Inl TypeError
      | (identifierName, identifierValue) # _ \<Rightarrow>
          (case collection of
             Documents ds \<Rightarrow>
               Inr (List.find
                      (\<lambda>d. strictEquals (getProperty (h d) identifierName) identifierValue) ds)
           | Inherited _ \<Rightarrow> Inl TypeError))"

definition createDocument ::
  "memoryStore \<Rightarrow> string \<Rightarrow> (string \<times> jsval) list \<Rightarrow> docref \<Rightarrow> bool result \<times> memoryStore" where
  "createDocument s collectionName identifierDescriptor document =
     (let (collection, s1) = internal_getCollection s collectionName in
      case internal_readDocument (heap s1) collection identifierDescriptor of
        Inl err \<Rightarrow> (Inl err, s1)
      | Inr (Some existingDocument) \<Rightarrow> (Inr False, s1)
      | Inr None \<Rightarrow>
          (case collection of
             Documents ds \<Rightarrow>
               (Inr True,
                s1\<lparr>collections := (collections s1)(collectionName \<mapsto> ds @ [document])\<rparr>)
           | Inherited _ \<Rightarrow> (Inl TypeError, s1)))"

definition readDocument ::
  "memoryStore \<Rightarrow> string \<Rightarrow> (string \<times> jsval) list \<Rightarrow> docref option result \<times> memoryStore" where
  "readDocument s collectionName identifierDescriptor =
     (let (collection, s1) = internal_getCollection s collectionName in
      (internal_readDocument (heap s1) collection identifierDescriptor, s1))"

text \<open>lodash's \<open>pull(array, value)\<close> removes from the array, in place, every element that is
  the value; for a document that is every reference to the same object.\<close>

definition pull :: "docref list \<Rightarrow> docref \<Rightarrow> docref list" where
  "pull array v = filter (\<lambda>x. x \<noteq> v) array"

definition deleteDocument ::
  "memoryStore \<Rightarrow> string \<Rightarrow> (string \<times> jsval) list \<Rightarrow> bool result \<times> memoryStore" where
  "deleteDocument s collectionName identifierDescriptor =
     (let (collection, s1) = internal_getCollection s collectionName in
      case internal_readDocument (heap s1) collection identifierDescriptor of
        Inl err \<Rightarrow> (Inl err, s1)
      | Inr None \<Rightarrow> (Inr False, s1)
      | Inr (Some document) \<Rightarrow>
          (case collection of
             Documents ds \<Rightarrow>
               (Inr True,
                s1\<lparr>collections := (collections s1)(collectionName \<mapsto> pull ds document)\<rparr>)
           | Inherited _ \<Rightarrow> (Inl TypeError, s1)))"

definition internal_findDocuments ::
  "host \<Rightarrow> (docref \<Rightarrow> document) \<Rightarrow> regexps \<Rightarrow> collection \<Rightarrow> jsval \<Rightarrow>
     (string \<times> string) list option \<Rightarrow> int option \<Rightarrow> int option \<Rightarrow> collection result \<times> regexps" where
  "internal_findDocuments H h \<sigma> collection expressions sortBy skip limit =
     (case filterDocuments H h \<sigma> collection expressions of
        (filtered, \<sigma>') \<Rightarrow>
          (andThen filtered (\<lambda>documents.
             andThen (sortDocuments H documents sortBy) (\<lambda>documents.
               andThen (skipDocuments documents skip) (\<lambda>documents.
                 limitDocuments documents limit))),
           \<sigma>'))"

definition findDocuments ::
  "host \<Rightarrow> memoryStore \<Rightarrow> regexps \<Rightarrow> string \<Rightarrow> jsval \<Rightarrow> (string \<times> string) list option \<Rightarrow>
     int option \<Rightarrow> int option \<Rightarrow> collection result \<times> memoryStore \<times> regexps" where
  "findDocuments H s \<sigma> collectionName expressions sortBy skip limit =
     (let (collection, s1) = internal_getCollection s collectionName in
      case internal_findDocuments H (heap s1) \<sigma> collection expressions sortBy skip limit of
        (documents, \<sigma>') \<Rightarrow> (documents, s1, \<sigma>'))"

definition countDocuments ::
  "host \<Rightarrow> memoryStore \<Rightarrow> regexps \<Rightarrow> string \<Rightarrow> jsval \<Rightarrow> jsval result \<times> memoryStore \<times> regexps" where
  "countDocuments H s \<sigma> collectionName expressions =
     (let (collection, s1) = internal_getCollection s collectionName in
      case internal_findDocuments H (heap s1) \<sigma> collection expressions None None None of
        (documents, \<sigma>') \<Rightarrow> (map_sum id lengthProperty documents, s1, \<sigma>'))"

text \<open>The documents registered under a name, none when the registry does not hold it.\<close>

definition documentsOf :: "memoryStore \<Rightarrow> string \<Rightarrow> docref list" where
  "documentsOf s name = (case collections s name of None \<Rightarrow> [] | Some collection \<Rightarrow> collection)"

text \<open>A name resolves to a collection when the registry holds it or no prototype member
  has it.\<close>

definition resolves :: "memoryStore \<Rightarrow> string \<Rightarrow> bool" where
  "resolves s name \<longleftrightarrow> collections s name \<noteq> None \<or> \<not> inherited name"

text \<open>The values that are not objects.\<close>

definition primitive :: "jsval \<Rightarrow> bool" where
  "primitive v =
     (case v of JDate _ \<Rightarrow> False | JRegExp _ _ _ \<Rightarrow> False | JArr _ \<Rightarrow> False | JObj _ \<Rightarrow> False
      | _ \<Rightarrow> True)"

text \<open>A value in which no regular expression has the flag \<open>g\<close> or \<open>y\<close>; evaluating such an
  expression changes no \<open>lastIndex\<close>.\<close>

fun stateless :: "jsval \<Rightarrow> bool" where
  "stateless (JRegExp r source flags) = (\<not> stateful flags)"
| "stateless (JArr xs) = (\<forall>x \<in> set xs. stateless x)"
| "stateless _ = True"

section \<open>Auxiliary definitions and examples\<close>

text \<open>\<open>Array.isArray\<close>, and the operators that \<open>evaluateExpression\<close> compares its argument
  with, in the order of the source.\<close>

definition isArray :: "jsval \<Rightarrow> bool" where
  "isArray v = (case v of JArr _ \<Rightarrow> True | _ \<Rightarrow> False)"


text \<open>
  One host, for the examples: \<open>get\<close> reads a top-level property, \<open><\<close> compares two
  numbers, the conversion to a string is that of the primitive values (the examples
  convert no object), the sort reverses, and the matcher looks for the source, taken
  literally, from the start index on (at the start index only for a regular expression
  with the flag \<open>y\<close>).
\<close>

fun decimal :: "nat \<Rightarrow> string" where
  "decimal n =
     (if n < 10 then [char_of (48 + n)] else decimal (n div 10) @ [char_of (48 + n mod 10)])"

declare decimal.simps [simp del]

fun searchFrom :: "string \<Rightarrow> nat \<Rightarrow> string \<Rightarrow> nat option" where
  "searchFrom source i [] = (if source = [] then Some i else None)"
| "searchFrom source i (c # cs) =
     (if prefix source (c # cs) then Some (i + length source) else searchFrom source (Suc i) cs)"

definition literalExec :: "string \<Rightarrow> string \<Rightarrow> nat \<Rightarrow> string \<Rightarrow> nat option" where
  "literalExec source flags i s =
     (if length s < i then None
      else if CHR ''y'' \<in> set flags then
        (if prefix source (drop i s) then Some (i + length source) else None)
      else searchFrom source i (drop i s))"

definition exampleHost :: host where
  "exampleHost =
     \<lparr> lodashGet = (\<lambda>object path. case (object, path) of
                        (JObj fs, JStr k) \<Rightarrow> Inr (getProperty fs k)
                      | _ \<Rightarrow> Inr JUndefined),
       compareLess = (\<lambda>x y. case (x, y) of
                        (JNum a, JNum b) \<Rightarrow> Inr (Some (a < b))
                      | _ \<Rightarrow> Inr None),
       toString = (\<lambda>v. case v of
                        JUndefined \<Rightarrow> Inr ''undefined''
                      | JNull \<Rightarrow> Inr ''null''
                      | JBool b \<Rightarrow> Inr (if b then ''true'' else ''false'')
                      | JNum n \<Rightarrow> Inr ((if n < 0 then ''-'' else []) @ decimal (nat \<bar>n\<bar>))
                      | JNaN \<Rightarrow> Inr ''NaN''
                      | JStr s \<Rightarrow> Inr s
                      | _ \<Rightarrow> Inl TypeError),
       regExpExec = literalExec,
       sortOn = (\<lambda>documents properties. rev documents) \<rparr>"

text \<open>No regular expression has been tested yet.\<close>

definition fresh :: regexps where
  "fresh = (\<lambda>r. 0)"

text \<open>One store: a collection of two documents that carry the same identifier.\<close>

definition exampleStore :: memoryStore where
  "exampleStore =
     \<lparr> collections = [''users'' \<mapsto> [0, 1]],
       heap = (\<lambda>r. if r = 0 then [(''id'', JStr ''1''), (''score'', JNum 3)]
                   else [(''id'', JStr ''1''), (''score'', JNum 1)]) \<rparr>"

text \<open>Another store: three documents with distinct identifiers and scores.\<close>

definition scoreStore :: memoryStore where
  "scoreStore =
     \<lparr> collections = [''scores'' \<mapsto> [1, 2, 3]],
       heap = (\<lambda>r. [(''id'', JNum (int r)), (''score'', JNum (int r * 10))]) \<rparr>"

section \<open>Properties of the evaluator\<close>

lemma documentIsMatchingExpressions_array:
  "documentIsMatchingExpressions H \<sigma> document (JArr es) = matchEach H \<sigma> document es"
  by (simp add: documentIsMatchingExpressions.simps)

lemma destructure_triple:
  "destructure (JArr [path, operator, operand]) = Inr (path, operator, operand)"
  by (simp add: destructure_def element_def)

lemma every_non_array:
  "\<not> isArray attributeValue \<Longrightarrow>
     evaluateExpression H \<sigma> attributeValue (JStr ''$every'') operand path = (Inr False, \<sigma>)"
  by (cases attributeValue) (simp_all add: evaluateExpression.simps isArray_def)

lemma every_empty_array:
  "evaluateExpression H \<sigma> (JArr []) (JStr ''$every'') operand path = (Inr True, \<sigma>)"
  by (simp add: evaluateExpression.simps)





lemma filterDocuments_matching:
  "es \<noteq> [] \<Longrightarrow>
     filterDocuments H h \<sigma> (Documents documents) (JArr es) = (Inr (Documents matching), \<sigma>')
     \<longleftrightarrow> filterMatching H h \<sigma> documents (JArr es) = (Inr matching, \<sigma>')"
  by (auto simp: filterDocuments_def split: sum.splits prod.splits)

lemmas evaluation =
  documentIsMatchingExpressions.simps evaluateExpression.simps destructure_def element_def
  attributeValueAt_def exampleHost_def getProperty_def andThen_def
  greaterThan_def greaterThanOrEqual_def lessThan_def lessThanOrEqual_def
  operandTest_def regExpTest_def stateful_def literalExec_def fresh_def

text \<open>
  C1, as the code has it. The claim gives \<open>false\<close> for both cases; \<open>Array.prototype.every\<close>
  is true on an empty array, so only the other case is false. For every document, path
  and operand, with the attribute value that the path resolves to: an expression with the
  operator \<open>$every\<close> evaluates to false when the value is not an array, and to true when
  it is the empty array; no regular expression is touched.
\<close>

theorem every_edge_cases:
  assumes "attributeValueAt H document path = Inr attributeValue"
  shows "(\<not> isArray attributeValue \<longrightarrow>
            documentIsMatchingExpressions H \<sigma> document
              (JArr [JArr [path, JStr ''$every'', operand]]) = (Inr False, \<sigma>))
       \<and> (attributeValue = JArr [] \<longrightarrow>
            documentIsMatchingExpressions H \<sigma> document
              (JArr [JArr [path, JStr ''$every'', operand]]) = (Inr True, \<sigma>))"
  using assms
  by (auto simp: documentIsMatchingExpressions_array destructure_triple every_non_array
        every_empty_array)

theorem every_edge_cases_witness:
  "documentIsMatchingExpressions exampleHost fresh (JObj [(''tags'', JStr ''not-an-array'')])
     (JArr [JArr [JStr ''tags'', JStr ''$every'', JArr [JArr [JStr [], JStr ''$equal'', JStr ''x'']]]])
     = (Inr False, fresh)
   \<and> documentIsMatchingExpressions exampleHost fresh (JObj [(''tags'', JArr [])])
     (JArr [JArr [JStr ''tags'', JStr ''$every'', JArr [JArr [JStr [], JStr ''$equal'', JStr ''x'']]]])
     = (Inr True, fresh)"
  using every_edge_cases [of exampleHost "JObj [(''tags'', JStr ''not-an-array'')]" "JStr ''tags''"
          "JStr ''not-an-array''" fresh "JArr [JArr [JStr [], JStr ''$equal'', JStr ''x'']]"]
        every_edge_cases [of exampleHost "JObj [(''tags'', JArr [])]" "JStr ''tags''" "JArr []"
          fresh "JArr [JArr [JStr [], JStr ''$equal'', JStr ''x'']]"]
  by (simp add: attributeValueAt_def exampleHost_def getProperty_def isArray_def)

text \<open>
  C1 as stated fails: the document \<open>{tags: []}\<close> matches
  \<open>[["tags", "$every", [["", "$equal", "x"]]]]\<close>.
\<close>

theorem every_empty_array_counterexample:
  "fst (documentIsMatchingExpressions exampleHost fresh (JObj [(''tags'', JArr [])])
     (JArr [JArr [JStr ''tags'', JStr ''$every'', JArr [JArr [JStr [], JStr ''$equal'', JStr ''x'']]]]))
     \<noteq> Inr False"
  by (simp add: evaluation)

lemma getCollection_registered:
  "collections s name = Some collection \<Longrightarrow>
     internal_getCollection s name = (Documents collection, s)"
  by (simp add: internal_getCollection_def)

lemma getCollection_unregistered:
  "collections s name = None \<Longrightarrow> \<not> inherited name \<Longrightarrow>
     internal_getCollection s name = (Documents [], s\<lparr>collections := (collections s)(name \<mapsto> [])\<rparr>)"
  by (simp add: internal_getCollection_def)

lemma getCollection_inherited:
  "collections s name = None \<Longrightarrow> inherited name \<Longrightarrow>
     internal_getCollection s name = (Inherited name, s)"
  by (simp add: internal_getCollection_def)



section \<open>Properties of the store\<close>

lemma getCollection_heap: "heap (snd (internal_getCollection s name)) = heap s"
  by (simp add: internal_getCollection_def split: option.splits)

lemma getCollection_documents:
  "documentsOf (snd (internal_getCollection s name)) n = documentsOf s n"
  by (simp add: internal_getCollection_def documentsOf_def split: option.splits)

lemma getCollection_resolves:
  "resolves s name \<Longrightarrow> fst (internal_getCollection s name) = Documents (documentsOf s name)"
  by (auto simp: internal_getCollection_def documentsOf_def resolves_def split: option.splits)

lemma getCollection_not_resolves:
  "\<not> resolves s name \<Longrightarrow> internal_getCollection s name = (Inherited name, s)"
  by (auto simp: internal_getCollection_def resolves_def split: option.splits)

text \<open>
  C3. From one state, \<open>countDocuments\<close> returns what \<open>findDocuments\<close> returns with sort,
  skip and limit omitted, with the \<open>length\<close> in place of the result (and the same error,
  the same store and the same state of the regular expressions); and that is the length
  of what the filter returns, nothing being sorted, skipped or cut before the count.
\<close>

theorem count_is_length_of_find:
  "countDocuments H s \<sigma> name expressions =
     (case findDocuments H s \<sigma> name expressions None None None of
        (found, s', \<sigma>') \<Rightarrow> (map_sum id lengthProperty found, s', \<sigma>'))
   \<and> fst (countDocuments H s \<sigma> name expressions) =
       map_sum id lengthProperty
         (fst (filterDocuments H (heap s) \<sigma> (fst (internal_getCollection s name)) expressions))"
  by (cases "internal_getCollection s name")
     (auto simp: countDocuments_def findDocuments_def internal_findDocuments_def
        sortDocuments_def skipDocuments_def limitDocuments_def andThen_def
        getCollection_heap [symmetric, of s name]
        split: sum.splits prod.splits)

theorem count_is_length_of_find_witness:
  "countDocuments exampleHost exampleStore fresh ''users''
       (JArr [JArr [JStr ''score'', JStr ''$greaterThan'', JNum 2]])
     = (Inr (JNum 1), exampleStore, fresh)
   \<and> findDocuments exampleHost exampleStore fresh ''users''
       (JArr [JArr [JStr ''score'', JStr ''$greaterThan'', JNum 2]]) None None None
     = (Inr (Documents [0]), exampleStore, fresh)"
proof -
  have found: "findDocuments exampleHost exampleStore fresh ''users''
       (JArr [JArr [JStr ''score'', JStr ''$greaterThan'', JNum 2]]) None None None
     = (Inr (Documents [0]), exampleStore, fresh)"
    by (simp add: findDocuments_def internal_findDocuments_def internal_getCollection_def
        filterDocuments_def sortDocuments_def skipDocuments_def limitDocuments_def
        exampleStore_def evaluation)
  with count_is_length_of_find [of exampleHost exampleStore fresh "''users''"
      "JArr [JArr [JStr ''score'', JStr ''$greaterThan'', JNum 2]]"]
  show ?thesis by simp
qed

lemma find_matching:
  "d \<in> set collection \<Longrightarrow> P d \<Longrightarrow> \<exists>d'. List.find P collection = Some d'"
  by (cases "List.find P collection") (auto simp: find_None_iff)

text \<open>
  C4. When a document of the collection has, in the field that the descriptor names, the
  value of the descriptor, \<open>createDocument\<close> returns false, raises nothing, and leaves the
  store as it was: the same registry, hence the same documents in the same order.
\<close>

theorem create_existing_identifier:
  assumes "collections s name = Some collection"
      and "d \<in> set collection"
      and "strictEquals (getProperty (heap s d) identifierName) identifierValue"
  shows "createDocument s name ((identifierName, identifierValue) # rest) document = (Inr False, s)"
proof -
  from assms(2,3) obtain d' where
    "List.find (\<lambda>d. strictEquals (getProperty (heap s d) identifierName) identifierValue) collection
       = Some d'"
    using find_matching [of d collection
        "\<lambda>d. strictEquals (getProperty (heap s d) identifierName) identifierValue"] by blast
  with assms(1) show ?thesis
    by (simp add: createDocument_def getCollection_registered internal_readDocument_def)
qed

theorem create_existing_identifier_witness:
  "createDocument exampleStore ''users'' [(''id'', JStr ''1'')] 7 = (Inr False, exampleStore)"
  using create_existing_identifier [of exampleStore "''users''" "[0, 1]" 0 "''id''" "JStr ''1''" "[]" 7]
  by (simp add: exampleStore_def getProperty_def)

text \<open>
  C10, as the code has it. For a name that the registry does not hold and that is not
  the name of a member of \<open>Object.prototype\<close>, \<open>readDocument\<close>, \<open>findDocuments\<close> and
  \<open>countDocuments\<close> each leave a store whose registry maps the name to an empty
  collection, whatever they return. For the name of a member the lookup finds the
  member: the three operations leave the store as it was, and \<open>readDocument\<close> raises.
\<close>

theorem reads_register_collection:
  assumes "collections s name = None"
  shows "(\<not> inherited name \<longrightarrow>
            snd (readDocument s name identifierDescriptor)
              = s\<lparr>collections := (collections s)(name \<mapsto> [])\<rparr>
          \<and> fst (snd (findDocuments H s \<sigma> name expressions sortBy skip limit))
              = s\<lparr>collections := (collections s)(name \<mapsto> [])\<rparr>
          \<and> fst (snd (countDocuments H s \<sigma> name expressions))
              = s\<lparr>collections := (collections s)(name \<mapsto> [])\<rparr>
          \<and> collections (s\<lparr>collections := (collections s)(name \<mapsto> [])\<rparr>) name = Some [])
       \<and> (inherited name \<longrightarrow>
            snd (readDocument s name identifierDescriptor) = s
          \<and> fst (readDocument s name identifierDescriptor) = Inl TypeError
          \<and> fst (snd (findDocuments H s \<sigma> name expressions sortBy skip limit)) = s
          \<and> fst (snd (countDocuments H s \<sigma> name expressions)) = s)"
  using assms
  by (auto simp: readDocument_def findDocuments_def countDocuments_def getCollection_unregistered
        getCollection_inherited internal_readDocument_def split: prod.splits list.splits)

theorem reads_register_collection_witness:
  "collections (snd (readDocument exampleStore ''movies'' [(''id'', JStr ''1'')])) ''movies'' = Some []
   \<and> collections (fst (snd (findDocuments exampleHost exampleStore fresh ''movies'' (JArr [])
        None None None))) ''movies'' = Some []
   \<and> collections (fst (snd (countDocuments exampleHost exampleStore fresh ''movies'' (JArr []))))
        ''movies'' = Some []
   \<and> collections exampleStore ''movies'' = None
   \<and> snd (readDocument exampleStore ''valueOf'' [(''id'', JStr ''1'')]) = exampleStore"
  using reads_register_collection [of exampleStore "''movies''" "[(''id'', JStr ''1'')]"
          exampleHost fresh "JArr []" None None None]
        reads_register_collection [of exampleStore "''valueOf''" "[(''id'', JStr ''1'')]"
          exampleHost fresh "JArr []" None None None]
  by (simp add: exampleStore_def inherited_def objectPrototype_def)

text \<open>
  C10 as stated fails for the names \<open>toString\<close> and \<open>constructor\<close>, which no registry
  holds at first: \<open>readDocument\<close> raises and \<open>countDocuments\<close> returns the \<open>length\<close> of the
  function \<open>Object\<close>, and neither registers anything.
\<close>

theorem reads_register_collection_counterexample:
  "collections exampleStore ''toString'' = None
   \<and> readDocument exampleStore ''toString'' [(''id'', JStr ''1'')] = (Inl TypeError, exampleStore)
   \<and> collections exampleStore ''constructor'' = None
   \<and> countDocuments exampleHost exampleStore fresh ''constructor'' (JArr [])
       = (Inr (JNum 1), exampleStore, fresh)"
  by (simp add: readDocument_def countDocuments_def internal_getCollection_def
      internal_readDocument_def internal_findDocuments_def filterDocuments_def sortDocuments_def
      skipDocuments_def limitDocuments_def andThen_def inherited_def objectPrototype_def
      getProperty_def exampleStore_def)

lemma skip_drop:
  "0 \<le> n \<Longrightarrow> skipDocuments (Documents documents) (Some n) = Inr (Documents (drop (nat n) documents))"
  by (simp add: skipDocuments_def slice_def relativeIndex_def Let_def min_def)

lemma limit_take:
  "0 \<le> m \<Longrightarrow> limitDocuments (Documents documents) (Some m) = Inr (Documents (take (nat m) documents))"
  by (simp add: limitDocuments_def slice_def relativeIndex_def Let_def min_def)

lemma sortDocuments_array:
  "sortDocuments H (Documents documents) sortBy =
     Inr (Documents (case sortBy of
                       None \<Rightarrow> documents
                     | Some descriptor \<Rightarrow> sortOn H documents (sortProperties descriptor)))"
  by (simp add: sortDocuments_def split: option.splits)

text \<open>
  C7. When the filter raises nothing, \<open>findDocuments\<close> returns the filtered documents,
  then sorted, then without the first \<open>n\<close>, then cut to the first \<open>m\<close>, in that order;
  sorting an array raises nothing. For \<open>n \<ge> 0\<close> the skip drops the first \<open>n\<close> documents,
  and all of them when \<open>n\<close> is at least their number; for \<open>m \<ge> 0\<close> the limit keeps the
  first \<open>m\<close>; with skip and limit absent, every filtered document is returned, sorted.
\<close>

theorem find_pipeline:
  assumes "filterDocuments H h \<sigma> (Documents collection) expressions = (Inr (Documents filtered), \<sigma>')"
  shows "internal_findDocuments H h \<sigma> (Documents collection) expressions sortBy skip limit
           = (andThen (andThen (sortDocuments H (Documents filtered) sortBy)
                         (\<lambda>ordered. skipDocuments ordered skip))
                (\<lambda>skipped. limitDocuments skipped limit), \<sigma>')
       \<and> sortDocuments H (Documents filtered) sortBy =
           Inr (Documents (case sortBy of
                             None \<Rightarrow> filtered
                           | Some descriptor \<Rightarrow> sortOn H filtered (sortProperties descriptor)))
       \<and> (0 \<le> n \<longrightarrow>
            skipDocuments (Documents documents) (Some n) = Inr (Documents (drop (nat n) documents)))
       \<and> (int (length documents) \<le> n \<longrightarrow>
            skipDocuments (Documents documents) (Some n) = Inr (Documents []))
       \<and> (0 \<le> m \<longrightarrow>
            limitDocuments (Documents documents) (Some m) = Inr (Documents (take (nat m) documents)))
       \<and> (0 \<le> n \<and> 0 \<le> m \<longrightarrow>
            internal_findDocuments H h \<sigma> (Documents collection) expressions sortBy (Some n) (Some m)
              = (Inr (Documents (take (nat m) (drop (nat n)
                   (case sortBy of
                      None \<Rightarrow> filtered
                    | Some descriptor \<Rightarrow> sortOn H filtered (sortProperties descriptor))))), \<sigma>'))
       \<and> internal_findDocuments H h \<sigma> (Documents collection) expressions sortBy None None
           = (Inr (Documents (case sortBy of
                                None \<Rightarrow> filtered
                              | Some descriptor \<Rightarrow> sortOn H filtered (sortProperties descriptor))),
              \<sigma>')
       \<and> fst (findDocuments H s \<sigma> name expressions sortBy skip limit)
           = fst (internal_findDocuments H (heap s) \<sigma> (fst (internal_getCollection s name))
                    expressions sortBy skip limit)"
proof (intro conjI impI)
  show "internal_findDocuments H h \<sigma> (Documents collection) expressions sortBy skip limit
      = (andThen (andThen (sortDocuments H (Documents filtered) sortBy)
                    (\<lambda>ordered. skipDocuments ordered skip))
           (\<lambda>skipped. limitDocuments skipped limit), \<sigma>')"
    using assms by (simp add: internal_findDocuments_def andThen_def split: sum.splits)
  show "sortDocuments H (Documents filtered) sortBy =
      Inr (Documents (case sortBy of
                        None \<Rightarrow> filtered
                      | Some descriptor \<Rightarrow> sortOn H filtered (sortProperties descriptor)))"
    by (rule sortDocuments_array)
  show "skipDocuments (Documents documents) (Some n) = Inr (Documents (drop (nat n) documents))"
    if "0 \<le> n"
    using that by (rule skip_drop)
  show "skipDocuments (Documents documents) (Some n) = Inr (Documents [])"
    if "int (length documents) \<le> n"
  proof -
    from that have "0 \<le> n" by linarith
    with that show ?thesis by (simp add: skip_drop)
  qed
  show "limitDocuments (Documents documents) (Some m) = Inr (Documents (take (nat m) documents))"
    if "0 \<le> m"
    using that by (rule limit_take)
  show "internal_findDocuments H h \<sigma> (Documents collection) expressions sortBy (Some n) (Some m)
      = (Inr (Documents (take (nat m) (drop (nat n)
           (case sortBy of
              None \<Rightarrow> filtered
            | Some descriptor \<Rightarrow> sortOn H filtered (sortProperties descriptor))))), \<sigma>')"
    if "0 \<le> n \<and> 0 \<le> m"
    using that assms
    by (simp add: internal_findDocuments_def andThen_def sortDocuments_array skip_drop limit_take)
  show "internal_findDocuments H h \<sigma> (Documents collection) expressions sortBy None None
      = (Inr (Documents (case sortBy of
                           None \<Rightarrow> filtered
                         | Some descriptor \<Rightarrow> sortOn H filtered (sortProperties descriptor))),
         \<sigma>')"
    using assms
    by (simp add: internal_findDocuments_def andThen_def sortDocuments_array skipDocuments_def
        limitDocuments_def)
  show "fst (findDocuments H s \<sigma> name expressions sortBy skip limit)
      = fst (internal_findDocuments H (heap s) \<sigma> (fst (internal_getCollection s name))
               expressions sortBy skip limit)"
    by (cases "internal_getCollection s name")
       (simp add: findDocuments_def getCollection_heap [symmetric, of s name]
          split: prod.splits)
qed

theorem find_pipeline_witness:
  "fst (findDocuments exampleHost scoreStore fresh ''scores''
          (JArr [JArr [JStr ''score'', JStr ''$greaterThan'', JNum 10]])
          (Some [(''score'', ''DESC'')]) (Some 1) (Some 5))
     = Inr (Documents [2])"
proof -
  have filtered: "filterDocuments exampleHost (heap scoreStore) fresh (Documents [1, 2, 3])
      (JArr [JArr [JStr ''score'', JStr ''$greaterThan'', JNum 10]])
      = (Inr (Documents [2, 3]), fresh)"
    by (simp add: filterDocuments_def scoreStore_def evaluation)
  have "fst (internal_getCollection scoreStore ''scores'') = Documents [1, 2, 3]"
    by (simp add: internal_getCollection_def scoreStore_def)
  with find_pipeline [OF filtered, of "Some [(''score'', ''DESC'')]" "Some 1" "Some 5" 1 "[]" 5
      scoreStore "''scores''"] filtered
  show ?thesis
    by (simp add: internal_findDocuments_def andThen_def sortDocuments_array skip_drop limit_take
        sortProperties_def toLowerCase_def exampleHost_def)
qed

lemma readDocument_result:
  "fst (readDocument s name identifierDescriptor)
     = internal_readDocument (heap s) (fst (internal_getCollection s name)) identifierDescriptor"
  by (cases "internal_getCollection s name")
     (simp add: readDocument_def getCollection_heap [symmetric, of s name])

text \<open>
  C8. With a descriptor whose first entry is \<open>(identifierName, identifierValue)\<close>,
  \<open>readDocument\<close> returns the first document of the collection, in stored order, whose
  field \<open>identifierName\<close> is \<open>===\<close> to \<open>identifierValue\<close>, and nothing when there is none;
  the other entries of the descriptor play no part. For an identifier value that is not
  an object (and not \<open>NaN\<close>), \<open>===\<close> is equality of values.
\<close>

theorem read_first_match:
  "internal_readDocument h (Documents collection) ((identifierName, identifierValue) # rest)
     = Inr (List.find (\<lambda>d. strictEquals (getProperty (h d) identifierName) identifierValue)
              collection)
   \<and> (internal_readDocument h (Documents collection) ((identifierName, identifierValue) # rest)
        = Inr (Some d)
        \<longleftrightarrow> (\<exists>i<length collection. collection ! i = d
              \<and> strictEquals (getProperty (h d) identifierName) identifierValue
              \<and> (\<forall>j<i. \<not> strictEquals (getProperty (h (collection ! j)) identifierName)
                           identifierValue)))
   \<and> (internal_readDocument h (Documents collection) ((identifierName, identifierValue) # rest)
        = Inr None
        \<longleftrightarrow> (\<forall>d\<in>set collection.
               \<not> strictEquals (getProperty (h d) identifierName) identifierValue))
   \<and> (primitive identifierValue \<and> identifierValue \<noteq> JNaN \<longrightarrow>
        strictEquals x identifierValue = (x = identifierValue))
   \<and> fst (readDocument s name ((identifierName, identifierValue) # rest))
       = internal_readDocument (heap s) (fst (internal_getCollection s name))
           ((identifierName, identifierValue) # rest)
   \<and> (resolves s name \<longrightarrow>
        fst (internal_getCollection s name) = Documents (documentsOf s name))"
proof (intro conjI)
  show "internal_readDocument h (Documents collection) ((identifierName, identifierValue) # rest)
     = Inr (List.find (\<lambda>d. strictEquals (getProperty (h d) identifierName) identifierValue)
              collection)"
    by (simp add: internal_readDocument_def)
  show "internal_readDocument h (Documents collection) ((identifierName, identifierValue) # rest)
        = Inr (Some d)
        \<longleftrightarrow> (\<exists>i<length collection. collection ! i = d
              \<and> strictEquals (getProperty (h d) identifierName) identifierValue
              \<and> (\<forall>j<i. \<not> strictEquals (getProperty (h (collection ! j)) identifierName)
                           identifierValue))"
    by (auto simp: internal_readDocument_def find_Some_iff)
  show "internal_readDocument h (Documents collection) ((identifierName, identifierValue) # rest)
        = Inr None
        \<longleftrightarrow> (\<forall>d\<in>set collection.
               \<not> strictEquals (getProperty (h d) identifierName) identifierValue)"
    by (auto simp: internal_readDocument_def find_None_iff)
  show "primitive identifierValue \<and> identifierValue \<noteq> JNaN \<longrightarrow>
        strictEquals x identifierValue = (x = identifierValue)"
    by (cases x; cases identifierValue) (auto simp: primitive_def)
  show "fst (readDocument s name ((identifierName, identifierValue) # rest))
       = internal_readDocument (heap s) (fst (internal_getCollection s name))
           ((identifierName, identifierValue) # rest)"
    by (rule readDocument_result)
  show "resolves s name \<longrightarrow>
        fst (internal_getCollection s name) = Documents (documentsOf s name)"
    by (simp add: getCollection_resolves)
qed

theorem read_first_match_witness:
  "fst (readDocument exampleStore ''users'' [(''id'', JStr ''1''), (''score'', JNum 1)]) = Inr (Some 0)
   \<and> fst (readDocument exampleStore ''users'' [(''id'', JStr ''2'')]) = Inr None"
  using read_first_match [of "heap exampleStore" "[0, 1]" "''id''" "JStr ''1''" "[(''score'', JNum 1)]" 0
          JNull exampleStore "''users''"]
        read_first_match [of "heap exampleStore" "[0, 1]" "''id''" "JStr ''2''" "[]" 0
          JNull exampleStore "''users''"]
  by (simp add: exampleStore_def documentsOf_def resolves_def getProperty_def primitive_def)

lemma documentsOf_update:
  "documentsOf (s\<lparr>collections := (collections s)(name \<mapsto> c)\<rparr>) n
     = (if n = name then c else documentsOf s n)"
  by (simp add: documentsOf_def)

lemma resolves_update: "resolves (s\<lparr>collections := (collections s)(name \<mapsto> c)\<rparr>) name"
  by (simp add: resolves_def)

lemma deleteDocument_result:
  assumes "resolves s name"
  shows "deleteDocument s name ((k, v) # rest) =
     (case List.find (\<lambda>d. strictEquals (getProperty (heap s d) k) v) (documentsOf s name) of
        None \<Rightarrow> (Inr False, snd (internal_getCollection s name))
      | Some d \<Rightarrow>
          (Inr True,
           (snd (internal_getCollection s name))
             \<lparr>collections := (collections (snd (internal_getCollection s name)))
                (name \<mapsto> pull (documentsOf s name) d)\<rparr>))"
  using getCollection_resolves [OF assms]
  by (cases "internal_getCollection s name")
     (simp add: deleteDocument_def internal_readDocument_def
        getCollection_heap [symmetric, of s name] split: option.splits)

lemma single_match:
  assumes "length (filter P xs) = 1"
  obtains d where "List.find P xs = Some d" and "filter P xs = [d]"
    and "List.find P (filter (\<lambda>x. x \<noteq> d) xs) = None"
    and "length (filter (\<lambda>x. x \<noteq> d) xs) + 1 = length xs"
proof -
  from assms obtain d where d: "filter P xs = [d]"
    by (cases "filter P xs") auto
  then have "d \<in> set (filter P xs)" by simp
  then have Pd: "P d" and dxs: "d \<in> set xs" by auto
  have only: "x = d" if "x \<in> set xs" "P x" for x
  proof -
    from that have "x \<in> set (filter P xs)" by simp
    with d show ?thesis by simp
  qed
  from Pd dxs obtain d' where f: "List.find P xs = Some d'"
    using find_matching [of d xs P] by blast
  then have "P d'" "d' \<in> set xs" by (auto simp: find_Some_iff)
  then have "d' = d" by (rule only [rotated])
  with f have found: "List.find P xs = Some d" by simp
  have none: "List.find P (filter (\<lambda>x. x \<noteq> d) xs) = None"
    using only by (auto simp: find_None_iff)
  have "filter (\<lambda>x. x = d) xs = filter P xs"
    using only Pd by (intro filter_cong) auto
  then have "length (filter (\<lambda>x. x = d) xs) = 1" using d by simp
  moreover have "length (filter (\<lambda>x. x = d) xs) + length (filter (\<lambda>x. \<not> x = d) xs) = length xs"
    by (rule sum_length_filter_compl)
  ultimately have len: "length (filter (\<lambda>x. x \<noteq> d) xs) + 1 = length xs" by simp
  from found d none len show thesis by (rule that)
qed

text \<open>
  C5, as the code has it, for a name that resolves to a collection. When no document of
  the collection matches the descriptor, \<open>deleteDocument\<close> returns false and every
  collection keeps its documents. Otherwise it returns true and the collection loses
  every reference to the first matching document, the others keeping their order. When
  exactly one entry of the collection matches, the collection is shorter by exactly one
  and \<open>readDocument\<close> with the same descriptor then finds nothing. For a name that
  resolves to a member of \<open>Object.prototype\<close>, \<open>deleteDocument\<close> raises and changes
  nothing.
\<close>

theorem delete_document:
  "(resolves s name \<longrightarrow>
     ((\<forall>d\<in>set (documentsOf s name). \<not> strictEquals (getProperty (heap s d) k) v) \<longrightarrow>
        fst (deleteDocument s name ((k, v) # rest)) = Inr False
        \<and> heap (snd (deleteDocument s name ((k, v) # rest))) = heap s
        \<and> (\<forall>n. documentsOf (snd (deleteDocument s name ((k, v) # rest))) n = documentsOf s n))
     \<and> (List.find (\<lambda>d. strictEquals (getProperty (heap s d) k) v) (documentsOf s name)
          = Some found \<longrightarrow>
          fst (deleteDocument s name ((k, v) # rest)) = Inr True
          \<and> heap (snd (deleteDocument s name ((k, v) # rest))) = heap s
          \<and> documentsOf (snd (deleteDocument s name ((k, v) # rest))) name
              = filter (\<lambda>x. x \<noteq> found) (documentsOf s name))
     \<and> (length (filter (\<lambda>d. strictEquals (getProperty (heap s d) k) v) (documentsOf s name)) = 1
          \<longrightarrow>
          fst (deleteDocument s name ((k, v) # rest)) = Inr True
          \<and> fst (readDocument (snd (deleteDocument s name ((k, v) # rest))) name ((k, v) # rest))
              = Inr None
          \<and> length (documentsOf (snd (deleteDocument s name ((k, v) # rest))) name) + 1
              = length (documentsOf s name)))
   \<and> (\<not> resolves s name \<longrightarrow> deleteDocument s name ((k, v) # rest) = (Inl TypeError, s))"
proof (intro conjI impI)
  let ?P = "\<lambda>d. strictEquals (getProperty (heap s d) k) v"
  let ?s' = "snd (deleteDocument s name ((k, v) # rest))"
  {
    assume r: "resolves s name" and "\<forall>d\<in>set (documentsOf s name). \<not> ?P d"
    then have none: "List.find ?P (documentsOf s name) = None"
      by (simp add: find_None_iff)
    show "fst (deleteDocument s name ((k, v) # rest)) = Inr False"
      by (simp add: deleteDocument_result [OF r] none)
    show "heap ?s' = heap s"
      by (simp add: deleteDocument_result [OF r] none getCollection_heap)
    show "\<forall>n. documentsOf ?s' n = documentsOf s n"
      by (simp add: deleteDocument_result [OF r] none getCollection_documents)
  }
  {
    assume r: "resolves s name" and some: "List.find ?P (documentsOf s name) = Some found"
    show "fst (deleteDocument s name ((k, v) # rest)) = Inr True"
      by (simp add: deleteDocument_result [OF r] some)
    show "heap ?s' = heap s"
      by (simp add: deleteDocument_result [OF r] some getCollection_heap)
    show "documentsOf ?s' name = filter (\<lambda>x. x \<noteq> found) (documentsOf s name)"
      by (simp add: deleteDocument_result [OF r] some documentsOf_update pull_def)
  }
  {
    assume r: "resolves s name" and "length (filter ?P (documentsOf s name)) = 1"
    then obtain d where some: "List.find ?P (documentsOf s name) = Some d"
      and none: "List.find ?P (filter (\<lambda>x. x \<noteq> d) (documentsOf s name)) = None"
      and len: "length (filter (\<lambda>x. x \<noteq> d) (documentsOf s name)) + 1 = length (documentsOf s name)"
      using single_match [of ?P "documentsOf s name"] by blast
    have docs: "documentsOf ?s' name = filter (\<lambda>x. x \<noteq> d) (documentsOf s name)"
      by (simp add: deleteDocument_result [OF r] some documentsOf_update pull_def)
    have hp: "heap ?s' = heap s"
      by (simp add: deleteDocument_result [OF r] some getCollection_heap)
    have r': "resolves ?s' name"
      by (simp add: deleteDocument_result [OF r] some resolves_update)
    show "fst (deleteDocument s name ((k, v) # rest)) = Inr True"
      by (simp add: deleteDocument_result [OF r] some)
    show "fst (readDocument ?s' name ((k, v) # rest)) = Inr None"
      by (simp add: readDocument_result getCollection_resolves [OF r'] internal_readDocument_def
          hp docs none)
    show "length (documentsOf ?s' name) + 1 = length (documentsOf s name)"
      using len by (simp add: docs)
  }
  show "deleteDocument s name ((k, v) # rest) = (Inl TypeError, s)" if "\<not> resolves s name"
    using that
    by (simp add: deleteDocument_def getCollection_not_resolves internal_readDocument_def)
qed

theorem delete_document_witness:
  "fst (deleteDocument scoreStore ''scores'' [(''id'', JNum 2)]) = Inr True
   \<and> documentsOf (snd (deleteDocument scoreStore ''scores'' [(''id'', JNum 2)])) ''scores'' = [1, 3]
   \<and> fst (readDocument (snd (deleteDocument scoreStore ''scores'' [(''id'', JNum 2)])) ''scores''
          [(''id'', JNum 2)]) = Inr None
   \<and> fst (deleteDocument scoreStore ''scores'' [(''id'', JNum 7)]) = Inr False
   \<and> deleteDocument scoreStore ''toString'' [(''id'', JNum 2)] = (Inl TypeError, scoreStore)"
  using delete_document [of scoreStore "''scores''" "''id''" "JNum 2" "[]" 2]
        delete_document [of scoreStore "''scores''" "''id''" "JNum 7" "[]" 2]
        delete_document [of scoreStore "''toString''" "''id''" "JNum 2" "[]" 2]
  by (simp add: scoreStore_def documentsOf_def resolves_def inherited_def objectPrototype_def
      getProperty_def)

text \<open>
  C5 as stated fails on a collection in which two documents carry the identifier: the
  first is removed and \<open>readDocument\<close> returns the second.
\<close>

theorem delete_document_counterexample:
  "fst (deleteDocument exampleStore ''users'' [(''id'', JStr ''1'')]) = Inr True
   \<and> fst (readDocument (snd (deleteDocument exampleStore ''users'' [(''id'', JStr ''1'')])) ''users''
          [(''id'', JStr ''1'')]) = Inr (Some 1)"
  by (simp add: deleteDocument_def readDocument_def internal_getCollection_def
      internal_readDocument_def pull_def exampleStore_def getProperty_def)

section \<open>Expressions without state\<close>

lemma stateless_iterate:
  "iterate expressions = Inr es \<Longrightarrow> stateless expressions \<Longrightarrow> \<forall>e\<in>set es. stateless e"
  by (cases expressions) auto

lemma stateless_element: "\<forall>x\<in>set xs. stateless x \<Longrightarrow> stateless (element xs i)"
  by (simp add: element_def)

lemma stateless_destructure:
  "destructure e = Inr (path, operator, operand) \<Longrightarrow> stateless e \<Longrightarrow> stateless operand"
  by (auto simp: destructure_def split: sum.splits
      dest!: stateless_iterate intro: stateless_element)

lemma stateless_test: "stateless operand \<Longrightarrow> snd (operandTest H \<sigma> operand s) = \<sigma>"
  by (cases operand) (simp_all add: operandTest_def regExpTest_def split: option.splits)

lemma evaluate_matches:
  "evaluateExpression H \<sigma> attributeValue (JStr ''$matches'') operand path =
     (case attributeValue of
        JStr s \<Rightarrow> operandTest H \<sigma> operand s
      | _ \<Rightarrow> (Inr False, \<sigma>))"
  by (simp add: evaluateExpression.simps)

lemma evaluate_some:
  "evaluateExpression H \<sigma> attributeValue (JStr ''$some'') operand path =
     (case attributeValue of
        JArr subdocuments \<Rightarrow> someSubdocument H \<sigma> subdocuments operand
      | _ \<Rightarrow> (Inr False, \<sigma>))"
  by (simp add: evaluateExpression.simps)

lemma evaluate_every:
  "evaluateExpression H \<sigma> attributeValue (JStr ''$every'') operand path =
     (case attributeValue of
        JArr subdocuments \<Rightarrow> everySubdocument H \<sigma> subdocuments operand
      | _ \<Rightarrow> (Inr False, \<sigma>))"
  by (simp add: evaluateExpression.simps)

lemma evaluate_not:
  "evaluateExpression H \<sigma> attributeValue (JStr ''$not'') operand path =
     (case documentIsMatchingExpressions H \<sigma> attributeValue operand of
        (Inl err, \<sigma>') \<Rightarrow> (Inl err, \<sigma>')
      | (Inr b, \<sigma>') \<Rightarrow> (Inr (\<not> b), \<sigma>'))"
  by (simp add: evaluateExpression.simps)

lemma evaluate_and:
  "evaluateExpression H \<sigma> attributeValue (JStr ''$and'') operand path =
     (case operand of
        JArr andSubexpressions \<Rightarrow> everySubexpressions H \<sigma> attributeValue andSubexpressions
      | _ \<Rightarrow> (Inl TypeError, \<sigma>))"
  by (simp add: evaluateExpression.simps)

lemma evaluate_or:
  "evaluateExpression H \<sigma> attributeValue (JStr ''$or'') operand path =
     (case operand of
        JArr orSubexpressions \<Rightarrow> someSubexpressions H \<sigma> attributeValue orSubexpressions
      | _ \<Rightarrow> (Inl TypeError, \<sigma>))"
  by (simp add: evaluateExpression.simps)

lemma evaluate_nor:
  "evaluateExpression H \<sigma> attributeValue (JStr ''$nor'') operand path =
     (case operand of
        JArr norSubexpressions \<Rightarrow>
          (case someSubexpressions H \<sigma> attributeValue norSubexpressions of
             (Inl err, \<sigma>') \<Rightarrow> (Inl err, \<sigma>')
           | (Inr b, \<sigma>') \<Rightarrow> (Inr (\<not> b), \<sigma>'))
      | _ \<Rightarrow> (Inl TypeError, \<sigma>))"
  by (simp add: evaluateExpression.simps)

lemma evaluate_pure:
  "operator \<noteq> JStr ''$matches'' \<Longrightarrow> operator \<noteq> JStr ''$some'' \<Longrightarrow>
   operator \<noteq> JStr ''$every'' \<Longrightarrow> operator \<noteq> JStr ''$not'' \<Longrightarrow>
   operator \<noteq> JStr ''$and'' \<Longrightarrow> operator \<noteq> JStr ''$or'' \<Longrightarrow>
   operator \<noteq> JStr ''$nor'' \<Longrightarrow>
     snd (evaluateExpression H \<sigma> attributeValue operator operand path) = \<sigma>"
  by (simp add: evaluateExpression.simps split: jsval.splits sum.splits)

lemma stateless_unchanged:
  "stateless expressions \<Longrightarrow> snd (documentIsMatchingExpressions H \<sigma> document expressions) = \<sigma>"
  "\<forall>e\<in>set es. stateless e \<Longrightarrow> snd (matchEach H \<sigma> document es) = \<sigma>"
  "stateless operand \<Longrightarrow> snd (evaluateExpression H \<sigma> attributeValue operator operand path) = \<sigma>"
  "stateless operand \<Longrightarrow> snd (someSubdocument H \<sigma> subdocuments operand) = \<sigma>"
  "stateless operand \<Longrightarrow> snd (everySubdocument H \<sigma> subdocuments operand) = \<sigma>"
  "\<forall>x\<in>set xs. stateless x \<Longrightarrow> snd (someSubexpressions H \<sigma> attributeValue xs) = \<sigma>"
  "\<forall>x\<in>set xs. stateless x \<Longrightarrow> snd (everySubexpressions H \<sigma> attributeValue xs) = \<sigma>"
proof (induction H \<sigma> document expressions and H \<sigma> document es
    and H \<sigma> attributeValue operator operand path and H \<sigma> subdocuments operand
    and H \<sigma> subdocuments operand and H \<sigma> attributeValue xs and H \<sigma> attributeValue xs
    rule: documentIsMatchingExpressions_matchEach_evaluateExpression_someSubdocument_everySubdocument_someSubexpressions_everySubexpressions.induct)
  case (1 H \<sigma> document expressions)
  then show ?case
    by (auto simp: documentIsMatchingExpressions.simps split: sum.splits dest: stateless_iterate)
next
  case (2 H \<sigma> document)
  then show ?case by simp
next
  case (3 H \<sigma> document e es)
  show ?case
  proof (cases "destructure e")
    case (Inl err)
    then show ?thesis by simp
  next
    case (Inr triple)
    obtain path operator operand where triple: "triple = (path, operator, operand)"
      by (cases triple) auto
    from "3.prems" Inr triple have operand: "stateless operand"
      by (auto dest: stateless_destructure)
    show ?thesis
    proof (cases "attributeValueAt H document path")
      case (Inl err)
      with Inr triple show ?thesis by simp
    next
      case got: (Inr attributeValue)
      obtain r \<sigma>' where ev: "evaluateExpression H \<sigma> attributeValue operator operand path = (r, \<sigma>')"
        by (cases "evaluateExpression H \<sigma> attributeValue operator operand path") auto
      have "snd (evaluateExpression H \<sigma> attributeValue operator operand path) = \<sigma>"
        using "3.IH"(1) [OF Inr triple [symmetric] refl got operand] .
      with ev have same: "\<sigma>' = \<sigma>" by simp
      show ?thesis
      proof (cases r)
        case (Inl err)
        with Inr triple got ev same show ?thesis by simp
      next
        case b: (Inr b)
        show ?thesis
        proof (cases b)
          case True
          have "snd (matchEach H \<sigma>' document es) = \<sigma>'"
            using "3.IH"(2) [OF Inr triple [symmetric] refl got ev [symmetric] b]
              True "3.prems" by simp
          with Inr triple got ev same b True show ?thesis by simp
        next
          case False
          with Inr triple got ev same b show ?thesis by simp
        qed
      qed
    qed
  qed
next
  case (4 H \<sigma> attributeValue operator operand path)
  consider "operator = JStr ''$matches''" | "operator = JStr ''$some''"
    | "operator = JStr ''$every''" | "operator = JStr ''$not''" | "operator = JStr ''$and''"
    | "operator = JStr ''$or''" | "operator = JStr ''$nor''"
    | "operator \<noteq> JStr ''$matches''" "operator \<noteq> JStr ''$some''"
      "operator \<noteq> JStr ''$every''" "operator \<noteq> JStr ''$not''"
      "operator \<noteq> JStr ''$and''" "operator \<noteq> JStr ''$or''" "operator \<noteq> JStr ''$nor''"
    by fast
  then show ?case
  proof cases
    case 1
    with "4.prems" show ?thesis
      by (simp add: evaluate_matches stateless_test split: jsval.splits)
  next
    case 2
    with "4.IH"(1) "4.prems" show ?thesis
      by (auto simp: evaluate_some split: jsval.splits)
  next
    case 3
    with "4.IH"(2) "4.prems" show ?thesis
      by (auto simp: evaluate_every split: jsval.splits)
  next
    case 4
    with "4.IH"(3) "4.prems" show ?thesis
      by (auto simp: evaluate_not split: sum.splits prod.splits)
  next
    case 5
    with "4.IH"(4) "4.prems" show ?thesis
      by (auto simp: evaluate_and split: jsval.splits)
  next
    case 6
    with "4.IH"(5) "4.prems" show ?thesis
      by (auto simp: evaluate_or split: jsval.splits)
  next
    case 7
    with "4.IH"(6) "4.prems" show ?thesis
      by (auto simp: evaluate_nor split: jsval.splits sum.splits prod.splits)
  next
    case 8
    then show ?thesis by (intro evaluate_pure)
  qed
next
  case (5 H \<sigma> subexpressions)
  then show ?case by simp
next
  case (6 H \<sigma> subdocument rest subexpressions)
  then show ?case by (auto split: sum.splits prod.splits)
next
  case (7 H \<sigma> subexpressions)
  then show ?case by simp
next
  case (8 H \<sigma> subdocument rest subexpressions)
  then show ?case by (auto split: sum.splits prod.splits)
next
  case (9 H \<sigma> attributeValue)
  then show ?case by simp
next
  case (10 H \<sigma> attributeValue subexpressions rest)
  then show ?case by (auto split: sum.splits prod.splits)
next
  case (11 H \<sigma> attributeValue)
  then show ?case by simp
next
  case (12 H \<sigma> attributeValue subexpressions rest)
  then show ?case by (auto split: sum.splits prod.splits)
qed

lemma evaluate_stateless:
  "evaluateExpression H \<sigma> attributeValue operator operand path = (r, \<sigma>') \<Longrightarrow>
   stateless operand \<Longrightarrow> \<sigma>' = \<sigma>"
  using stateless_unchanged(3) [of operand H \<sigma> attributeValue operator path] by simp

lemma matching_stateless:
  "documentIsMatchingExpressions H \<sigma> document expressions = (r, \<sigma>') \<Longrightarrow>
   stateless expressions \<Longrightarrow> \<sigma>' = \<sigma>"
  using stateless_unchanged(1) [of expressions H \<sigma> document] by simp

lemma matching_commutes:
  assumes "stateless e1" and "stateless e2"
      and "documentIsMatchingExpressions H \<sigma> document (JArr [e1, e2]) = (Inr b, \<sigma>a)"
      and "documentIsMatchingExpressions H \<sigma> document (JArr [e2, e1]) = (Inr b', \<sigma>b)"
  shows "b = b'"
proof -
  have pure: "\<sigma>' = \<sigma>"
    if "destructure e = Inr (path, operator, operand)" "stateless e"
       "evaluateExpression H \<sigma> attributeValue operator operand path = (r, \<sigma>')"
    for e path operator operand attributeValue r \<sigma>'
    using that by (auto dest: stateless_destructure evaluate_stateless)
  from assms(3,4) show ?thesis
    by (auto simp: documentIsMatchingExpressions_array
        split: sum.splits prod.splits if_splits
        dest!: pure [OF _ assms(1)] pure [OF _ assms(2)])
qed

lemma filterMatching_commutes:
  assumes "stateless e1" and "stateless e2"
  shows "filterMatching H h \<sigma> documents (JArr [e1, e2]) = (Inr matching, \<sigma>a) \<Longrightarrow>
   filterMatching H h \<sigma> documents (JArr [e2, e1]) = (Inr matching', \<sigma>b) \<Longrightarrow>
   matching = matching'"
proof (induction documents arbitrary: matching matching' \<sigma>a \<sigma>b)
  case Nil
  then show ?case by simp
next
  case (Cons d ds)
  from assms have s12: "stateless (JArr [e1, e2])" and s21: "stateless (JArr [e2, e1])"
    by simp_all
  from Cons.prems(1) obtain b r \<sigma>1 where
        b: "documentIsMatchingExpressions H \<sigma> (JObj (h d)) (JArr [e1, e2]) = (Inr b, \<sigma>1)"
    and r: "filterMatching H h \<sigma>1 ds (JArr [e1, e2]) = (Inr r, \<sigma>a)"
    and m: "matching = (if b then d # r else r)"
    by (auto split: sum.splits prod.splits)
  from Cons.prems(2) obtain b' r' \<sigma>2 where
        b': "documentIsMatchingExpressions H \<sigma> (JObj (h d)) (JArr [e2, e1]) = (Inr b', \<sigma>2)"
    and r': "filterMatching H h \<sigma>2 ds (JArr [e2, e1]) = (Inr r', \<sigma>b)"
    and m': "matching' = (if b' then d # r' else r')"
    by (auto split: sum.splits prod.splits)
  from b s12 have "\<sigma>1 = \<sigma>" by (rule matching_stateless)
  moreover from b' s21 have "\<sigma>2 = \<sigma>" by (rule matching_stateless)
  moreover from assms b b' have "b = b'" by (rule matching_commutes)
  ultimately show ?case using r r' m m' Cons.IH by auto
qed

text \<open>
  C6, as the code has it. The expressions of a list are evaluated in order and the
  evaluation stops at the first that is false, so an expression is reached in one order
  and may not be in the other: an expression that raises need not raise, and a regular
  expression with the flag \<open>g\<close> or \<open>y\<close> is tested a different number of times. When no
  regular expression of \<open>e1\<close> and \<open>e2\<close> has one of these flags, and filtering a collection
  with \<open>[e1, e2]\<close> and with \<open>[e2, e1]\<close> both end without raising, they return the same
  documents.
\<close>

theorem filter_commutes:
  assumes "stateless e1" and "stateless e2"
      and "filterDocuments H h \<sigma> (Documents documents) (JArr [e1, e2])
             = (Inr (Documents matching), \<sigma>a)"
      and "filterDocuments H h \<sigma> (Documents documents) (JArr [e2, e1])
             = (Inr (Documents matching'), \<sigma>b)"
  shows "matching = matching'"
  using assms(3,4) filterMatching_commutes [OF assms(1,2)]
  by (simp add: filterDocuments_matching)

theorem filter_commutes_witness:
  "filterDocuments exampleHost (heap scoreStore) fresh (Documents [1, 2, 3])
     (JArr [JArr [JStr ''score'', JStr ''$greaterThan'', JNum 10],
            JArr [JStr ''id'', JStr ''$lessThan'', JNum 3]]) = (Inr (Documents [2]), fresh)
   \<and> filterDocuments exampleHost (heap scoreStore) fresh (Documents [1, 2, 3])
     (JArr [JArr [JStr ''id'', JStr ''$lessThan'', JNum 3],
            JArr [JStr ''score'', JStr ''$greaterThan'', JNum 10]]) = (Inr (Documents [2]), fresh)"
proof -
  have first: "filterDocuments exampleHost (heap scoreStore) fresh (Documents [1, 2, 3])
     (JArr [JArr [JStr ''score'', JStr ''$greaterThan'', JNum 10],
            JArr [JStr ''id'', JStr ''$lessThan'', JNum 3]]) = (Inr (Documents [2]), fresh)"
    by (simp add: filterDocuments_def scoreStore_def evaluation)
  obtain matching where second: "filterDocuments exampleHost (heap scoreStore) fresh
     (Documents [1, 2, 3])
     (JArr [JArr [JStr ''id'', JStr ''$lessThan'', JNum 3],
            JArr [JStr ''score'', JStr ''$greaterThan'', JNum 10]])
     = (Inr (Documents matching), fresh)"
    by (simp add: filterDocuments_def scoreStore_def evaluation)
  have "stateless (JArr [JStr ''score'', JStr ''$greaterThan'', JNum 10])"
    and "stateless (JArr [JStr ''id'', JStr ''$lessThan'', JNum 3])"
    by simp_all
  from filter_commutes [OF this first second] first second show ?thesis by simp
qed

text \<open>
  C6 as stated fails in two ways. With \<open>e1\<close> false on every document and \<open>e2\<close> of an
  unsupported operator, \<open>[e1, e2]\<close> matches nothing and \<open>[e2, e1]\<close> raises. With \<open>e1\<close> the
  test of the regular expression \<open>/1/g\<close> and \<open>e2\<close> true of the second document only,
  neither order raises, \<open>[e1, e2]\<close> matches nothing and \<open>[e2, e1]\<close> matches the second
  document.
\<close>

theorem filter_commutes_counterexample:
  "filterDocuments exampleHost (heap exampleStore) fresh (Documents [0, 1])
     (JArr [JArr [JStr ''id'', JStr ''$equal'', JStr ''2''],
            JArr [JStr ''id'', JStr ''$bogus'', JNull]]) = (Inr (Documents []), fresh)
   \<and> filterDocuments exampleHost (heap exampleStore) fresh (Documents [0, 1])
     (JArr [JArr [JStr ''id'', JStr ''$bogus'', JNull],
            JArr [JStr ''id'', JStr ''$equal'', JStr ''2'']])
     = (Inl (UnsupportedOperator (JStr ''$bogus'') (JStr ''id'')), fresh)
   \<and> fst (filterDocuments exampleHost (heap exampleStore) fresh (Documents [0, 1])
     (JArr [JArr [JStr ''id'', JStr ''$matches'', JRegExp 0 ''1'' ''g''],
            JArr [JStr ''score'', JStr ''$equal'', JNum 1]])) = Inr (Documents [])
   \<and> fst (filterDocuments exampleHost (heap exampleStore) fresh (Documents [0, 1])
     (JArr [JArr [JStr ''score'', JStr ''$equal'', JNum 1],
            JArr [JStr ''id'', JStr ''$matches'', JRegExp 0 ''1'' ''g'']])) = Inr (Documents [1])"
  by (simp add: filterDocuments_def exampleStore_def evaluation)

section \<open>Termination of the evaluator\<close>

lemma call_decreases: "evaluatorCall x y \<Longrightarrow> (x, y) \<in> callOrder"
  unfolding callOrder_def
  by (erule documentIsMatchingExpressions_matchEach_evaluateExpression_someSubdocument_everySubdocument_someSubexpressions_everySubexpressions_rel.cases)
     (auto simp: callMeasure_def recursiveOperator_def le_imp_less_or_eq
       weight_subexpressions dest: weight_iterate weight_destructure_recursive)

lemma wf_evaluatorCall: "wfP evaluatorCall"
  unfolding wfp_def by (rule wf_subset [OF wf_callOrder]) (auto dest: call_decreases)

lemma call_weight_le: "evaluatorCall x y \<Longrightarrow> fst (callMeasure x) \<le> fst (callMeasure y)"
  by (drule call_decreases, cases "callMeasure x", cases "callMeasure y")
     (auto simp: callOrder_def)

lemma call_from_matchEach:
  "evaluatorCall x y \<Longrightarrow> isMatchEach y \<Longrightarrow> \<not> isMatchEach x \<Longrightarrow>
     fst (callMeasure x) < fst (callMeasure y)"
  by (erule documentIsMatchingExpressions_matchEach_evaluateExpression_someSubdocument_everySubdocument_someSubexpressions_everySubexpressions_rel.cases)
     (auto simp: callMeasure_def isMatchEach_def dest: weight_destructure)

lemma call_from_matching: "evaluatorCall x y \<Longrightarrow> isMatching y \<Longrightarrow> isMatchEach x"
  by (erule documentIsMatchingExpressions_matchEach_evaluateExpression_someSubdocument_everySubdocument_someSubexpressions_everySubexpressions_rel.cases)
     (auto simp: isMatching_def isMatchEach_def)

lemma nested_call_weight:
  "evaluatorCall\<^sup>+\<^sup>+ x y \<Longrightarrow>
     fst (callMeasure x) \<le> fst (callMeasure y)
     \<and> ((isMatchEach y \<or> isMatching y) \<and> \<not> isMatchEach x \<longrightarrow>
          fst (callMeasure x) < fst (callMeasure y))"
proof (induction rule: tranclp_induct)
  case (base y)
  then show ?case
    using call_weight_le [of x y] call_from_matchEach [of x y] call_from_matching [of x y]
    by blast
next
  case (step y z)
  from step.hyps(2) have le: "fst (callMeasure y) \<le> fst (callMeasure z)"
    by (rule call_weight_le)
  show ?case
  proof (intro conjI impI)
    from step.IH le show "fst (callMeasure x) \<le> fst (callMeasure z)" by simp
    assume kind: "(isMatchEach z \<or> isMatching z) \<and> \<not> isMatchEach x"
    show "fst (callMeasure x) < fst (callMeasure z)"
    proof (cases "isMatchEach y")
      case True
      with step.IH kind have "fst (callMeasure x) < fst (callMeasure y)" by simp
      with le show ?thesis by simp
    next
      case False
      with kind step.hyps(2) have "isMatchEach z"
        using call_from_matching [of y z] by blast
      with step.hyps(2) False have "fst (callMeasure y) < fst (callMeasure z)"
        by (intro call_from_matchEach)
      with step.IH show ?thesis by simp
    qed
  qed
qed

text \<open>
  C9. The evaluation ends for every document and every expression list (a value of the
  datatype is a finite tree): the relation of the recursive calls is well-founded. No
  call leads back to a call with the same arguments, and whenever the evaluation of
  \<open>documentIsMatchingExpressions\<close> on some expressions leads to its evaluation on other
  expressions, these are strictly lighter: the recursion has gone down into an operand.
\<close>

theorem evaluator_terminates:
  "wfP evaluatorCall
   \<and> \<not> evaluatorCall\<^sup>+\<^sup>+ c c
   \<and> (evaluatorCall\<^sup>+\<^sup>+ (Inl (Inl (H', \<sigma>', document', expressions')))
         (Inl (Inl (H, \<sigma>, document, expressions)))
        \<longrightarrow> weight expressions' < weight expressions)"
proof (intro conjI impI)
  show "wfP evaluatorCall" by (rule wf_evaluatorCall)
  show "\<not> evaluatorCall\<^sup>+\<^sup>+ c c"
  proof
    assume "evaluatorCall\<^sup>+\<^sup>+ c c"
    then have "(c, c) \<in> {(x, y). evaluatorCall x y}\<^sup>+" by (simp add: tranclp_unfold)
    moreover have "wf ({(x, y). evaluatorCall x y}\<^sup>+)"
      using wf_evaluatorCall by (simp add: wfp_def wf_trancl)
    ultimately show False by (simp add: wf_not_refl)
  qed
  assume "evaluatorCall\<^sup>+\<^sup>+ (Inl (Inl (H', \<sigma>', document', expressions')))
      (Inl (Inl (H, \<sigma>, document, expressions)))"
  from nested_call_weight [OF this]
  show "weight expressions' < weight expressions"
    by (simp add: callMeasure_def isMatching_def isMatchEach_def)
qed

theorem evaluator_terminates_witness:
  "evaluatorCall\<^sup>+\<^sup>+ (Inl (Inl (exampleHost, fresh, JObj [], JArr [])))
      (Inl (Inl (exampleHost, fresh, JObj [], JArr [JArr [JStr [], JStr ''$not'', JArr []]])))
   \<and> weight (JArr []) < weight (JArr [JArr [JStr [], JStr ''$not'', JArr []]])"
proof -
  let ?e = "JArr [JStr [], JStr ''$not'', JArr []]"
  have "evaluatorCall (Inl (Inr (Inl (exampleHost, fresh, JObj [], [?e]))))
      (Inl (Inl (exampleHost, fresh, JObj [], JArr [?e])))"
    by (rule documentIsMatchingExpressions_matchEach_evaluateExpression_someSubdocument_everySubdocument_someSubexpressions_everySubexpressions_rel.intros(1))
       simp
  moreover have "evaluatorCall
      (Inl (Inr (Inr (exampleHost, fresh, JObj [], JStr ''$not'', JArr [], JStr []))))
      (Inl (Inr (Inl (exampleHost, fresh, JObj [], [?e]))))"
    by (rule documentIsMatchingExpressions_matchEach_evaluateExpression_someSubdocument_everySubdocument_someSubexpressions_everySubexpressions_rel.intros(2)
          [where b = "(JStr [], JStr ''$not'', JArr [])" and y = "(JStr ''$not'', JArr [])"])
       (simp_all add: destructure_triple attributeValueAt_def)
  moreover have "evaluatorCall (Inl (Inl (exampleHost, fresh, JObj [], JArr [])))
      (Inl (Inr (Inr (exampleHost, fresh, JObj [], JStr ''$not'', JArr [], JStr []))))"
    by (rule documentIsMatchingExpressions_matchEach_evaluateExpression_someSubdocument_everySubdocument_someSubexpressions_everySubexpressions_rel.intros(6))
       simp_all
  ultimately have chain: "evaluatorCall\<^sup>+\<^sup>+ (Inl (Inl (exampleHost, fresh, JObj [], JArr [])))
      (Inl (Inl (exampleHost, fresh, JObj [], JArr [?e])))"
    by (simp add: tranclp.intros)
  with evaluator_terminates [of "Inl (Inl (exampleHost, fresh, JObj [], JArr []))" exampleHost fresh
      "JObj []" "JArr []" exampleHost fresh "JObj []" "JArr [?e]"]
  show ?thesis by blast
qed

end
